theory Spec2Isabelle
  imports Complex_Main "HOL-Library.Sublist"
begin

section \<open>Python strings\<close>

text \<open>
  A Python \<open>str\<close> is modelled as a \<open>string\<close>, each \<open>char\<close> standing for the code point
  of the same number (0 to 255). On these code points \<open>str.lower()\<close> works character by
  character: the letters A to Z and the capital letters of the Latin-1 block (192 to 222
  but for the multiplication sign 215) move up by 32, every other character stays. Texts
  with code points above 255 are outside the model.
\<close>

definition lower_char :: "char \<Rightarrow> char" where
  "lower_char c =
     (let n = (of_char c :: nat)
      in if (65 \<le> n \<and> n \<le> 90) \<or> (192 \<le> n \<and> n \<le> 222 \<and> n \<noteq> 215)
         then char_of (n + 32) else c)"

definition lower :: "string \<Rightarrow> string" where
  "lower s = map lower_char s"

text \<open>
  \<open>sub in s\<close> on two Python strings: \<open>sub\<close> starts at some position of \<open>s\<close>. The empty
  string is in every string.
\<close>

fun str_in :: "string \<Rightarrow> string \<Rightarrow> bool" where
  "str_in sub [] = (sub = [])"
| "str_in sub (c # cs) = (prefix sub (c # cs) \<or> str_in sub cs)"

section \<open>Lexical adherence (utils.py)\<close>

text \<open>
  The dictionary that \<open>check_lexical_adherence\<close> returns always has the same five keys, so
  it is a record. \<open>len(passed) / len(rules)\<close> is Python's true division of two integers;
  the model keeps the exact quotient as a rational number.
\<close>

record lexical_result =
  passed_count :: nat
  failed_count :: nat
  passed_words :: "string list"
  failed_words :: "string list"
  adherence :: rat

definition check_lexical_adherence :: "string \<Rightarrow> string list \<Rightarrow> lexical_result" where
  "check_lexical_adherence story_text rules =
     (let lower_story = lower story_text;
          passed = filter (\<lambda>word. str_in (lower word) lower_story) rules;
          failed = filter (\<lambda>word. \<not> str_in (lower word) lower_story) rules
      in \<lparr> passed_count = length passed,
           failed_count = length failed,
           passed_words = passed,
           failed_words = failed,
           adherence = (if rules \<noteq> [] then of_nat (length passed) / of_nat (length rules)
                        else 1) \<rparr>)"

section \<open>The generation client (utils.py)\<close>

text \<open>
  \<open>str(n)\<close> for a Python integer, as the f-string of the failure text needs it.
\<close>

fun str_nat :: "nat \<Rightarrow> string" where
  "str_nat n =
     (if n < 10 then [char_of (48 + n)]
      else str_nat (n div 10) @ [char_of (48 + n mod 10)])"

declare str_nat.simps [simp del]

definition str_int :: "int \<Rightarrow> string" where
  "str_int i = (if i < 0 then CHR ''-'' # str_nat (nat (- i)) else str_nat (nat i))"

text \<open>
  One call of \<open>client.chat\<close> either yields a response whose message content is read, or
  raises an exception (a network error, a timeout, a response without the expected keys);
  the \<open>except Exception\<close> clause catches all of these alike, and \<open>Fault\<close> carries the
  text \<open>str(e)\<close> of the exception. What is not an \<open>Exception\<close> (a keyboard interrupt,
  an exit of the interpreter) is outside the model. The backend is a parameter: it gives
  the outcome of the call made at each attempt for a model and a prompt.
\<close>

datatype outcome = Content string | Fault string

type_synonym backend = "string \<Rightarrow> string \<Rightarrow> nat \<Rightarrow> outcome"

text \<open>
  What a call does besides returning is kept as a trace, in the order of execution: the
  requests sent, the lines logged (with the arguments of the format string) and the sleeps.
\<close>

datatype event =
    Chat string string
  | Log_Retry nat int string string nat
  | Log_Failed string int string
  | Sleep nat
  | Log_Saved string int
  | Log_Trial string int rat string

datatype returned = Text string | PyNone

definition failure_text :: "int \<Rightarrow> string" where
  "failure_text max_retries =
     ''ERROR: Failed to generate response after '' @ str_int max_retries @ '' attempts''"

text \<open>
  The loop \<open>for attempt in range(max_retries)\<close>, from a given attempt on. When the range
  is exhausted the function body ends, and Python returns \<open>None\<close>. The parameter
  \<open>timeout\<close> of the source is never read and is left out.
\<close>

function retry_loop :: "backend \<Rightarrow> string \<Rightarrow> string \<Rightarrow> int \<Rightarrow> nat \<Rightarrow> returned \<times> event list" where
  "retry_loop chat prompt model max_retries attempt =
     (if int attempt < max_retries then
        (case chat model prompt attempt of
           Content text \<Rightarrow> (Text text, [Chat model prompt])
         | Fault e \<Rightarrow>
             (if int attempt < max_retries - 1 then
                (case retry_loop chat prompt model max_retries (attempt + 1) of
                   (r, evs) \<Rightarrow>
                     (r, [Chat model prompt,
                          Log_Retry (attempt + 1) max_retries model e (2 ^ attempt),
                          Sleep (2 ^ attempt)] @ evs))
              else
                (Text (failure_text max_retries),
                 [Chat model prompt, Log_Failed model max_retries e])))
      else (PyNone, []))"
  by pat_completeness auto
termination
  by (relation "measure (\<lambda>(chat, prompt, model, max_retries, attempt). nat (max_retries - int attempt))")
     auto

declare retry_loop.simps [simp del]

definition call_ollama_with_retries :: "backend \<Rightarrow> string \<Rightarrow> string \<Rightarrow> int \<Rightarrow> returned \<times> event list" where
  "call_ollama_with_retries chat prompt model max_retries =
     retry_loop chat prompt model max_retries 0"

fun sleeps :: "event list \<Rightarrow> nat list" where
  "sleeps [] = []"
| "sleeps (Sleep n # evs) = n # sleeps evs"
| "sleeps (_ # evs) = sleeps evs"

section \<open>Splitting and stripping\<close>

text \<open>
  The characters that \<open>str.strip()\<close> and \<open>str.split()\<close> take for whitespace, among the
  code points 0 to 255: tab to carriage return, the four separators 28 to 31, the space,
  next line (133) and the no-break space (160).
\<close>

definition is_space :: "char \<Rightarrow> bool" where
  "is_space c =
     (let n = (of_char c :: nat)
      in (9 \<le> n \<and> n \<le> 13) \<or> (28 \<le> n \<and> n \<le> 32) \<or> n = 133 \<or> n = 160)"

definition strip :: "string \<Rightarrow> string" where
  "strip s = rev (dropWhile is_space (rev (dropWhile is_space s)))"

text \<open>
  \<open>s.split(sep)\<close> for a separator that is not empty (the source passes two literals): the
  text is read from the left, each occurrence of the separator ends a piece, and reading
  goes on behind it. There is always at least one piece.
\<close>

function split_sep :: "string \<Rightarrow> string \<Rightarrow> string list" where
  "split_sep sep [] = [[]]"
| "split_sep sep (c # cs) =
     (if sep \<noteq> [] \<and> prefix sep (c # cs)
      then [] # split_sep sep (drop (length sep) (c # cs))
      else (case split_sep sep cs of
              [] \<Rightarrow> [[c]]
            | p # ps \<Rightarrow> (c # p) # ps))"
  by pat_completeness auto
termination
  by (relation "measure (\<lambda>(sep, s). length s)") auto

text \<open>
  \<open>s.split()\<close> without a separator: the maximal runs of characters that are not
  whitespace.
\<close>

function split_ws :: "string \<Rightarrow> string list" where
  "split_ws s =
     (case dropWhile is_space s of
        [] \<Rightarrow> []
      | c # cs \<Rightarrow> takeWhile (\<lambda>x. \<not> is_space x) (c # cs)
                  # split_ws (dropWhile (\<lambda>x. \<not> is_space x) cs))"
  by pat_completeness auto
termination
proof (relation "measure length")
  show "wf (measure length)" by simp
next
  fix s :: string and c cs
  assume rest: "dropWhile is_space s = c # cs"
  have "length (dropWhile (\<lambda>x. \<not> is_space x) cs) \<le> length cs"
    by (rule length_dropWhile_le)
  also have "length cs < length (c # cs)" by simp
  also have "length (c # cs) = length (dropWhile is_space s)" using rest by simp
  also have "length (dropWhile is_space s) \<le> length s" by (rule length_dropWhile_le)
  finally show "(dropWhile (\<lambda>x. \<not> is_space x) cs, s) \<in> measure length" by simp
qed

declare split_ws.simps [simp del]

section \<open>Structural adherence (experiment_2_taxonomy.py)\<close>

text \<open>
  The two comprehensions of \<open>verify_structural_rules\<close>: the pieces between blank lines
  (occurrences of two line feeds in a row) and the pieces between periods, each stripped,
  those that are empty once stripped being dropped.
\<close>

definition paragraphs_of :: "string \<Rightarrow> string list" where
  "paragraphs_of story =
     map strip (filter (\<lambda>p. strip p \<noteq> []) (split_sep ''\<newline>\<newline>'' story))"

definition sentences_of :: "string \<Rightarrow> string list" where
  "sentences_of para = map strip (filter (\<lambda>s. strip s \<noteq> []) (split_sep ''.'' para))"

text \<open>The two nested loops, with the counter \<open>long_sentences\<close> passed along.\<close>

fun count_long_in :: "string list \<Rightarrow> nat \<Rightarrow> nat" where
  "count_long_in [] n = n"
| "count_long_in (sent # sents) n =
     count_long_in sents (if length (split_ws sent) > 15 then n + 1 else n)"

fun count_long :: "string list \<Rightarrow> nat \<Rightarrow> nat" where
  "count_long [] n = n"
| "count_long (para # paras) n = count_long paras (count_long_in (sentences_of para) n)"

record structural_result =
  paragraph_count :: nat
  long_sentences :: nat
  structural_adherence :: rat

definition verify_structural_rules :: "string \<Rightarrow> structural_result" where
  "verify_structural_rules story =
     (let paragraphs = paragraphs_of story;
          n_paragraphs = length paragraphs;
          n_long = count_long paragraphs 0;
          para_ok = (if n_paragraphs = 3 then 1 else 0 :: rat);
          sentence_ok = (if n_long = 0 then 1 else 0 :: rat)
      in \<lparr> paragraph_count = n_paragraphs,
           long_sentences = n_long,
           structural_adherence = (para_ok + sentence_ok) / 2 \<rparr>)"

text \<open>\<open>sep.join(xs)\<close>, which the prompt builders use and which undoes a split.\<close>

fun join :: "string \<Rightarrow> string list \<Rightarrow> string" where
  "join sep [] = []"
| "join sep [x] = x"
| "join sep (x # y # ys) = x @ sep @ join sep (y # ys)"

section \<open>Tense resolution (experiment_3_contradictions.py)\<close>

text \<open>
  \<open>s.count(sub)\<close>: the occurrences of \<open>sub\<close> in \<open>s\<close> that do not overlap, found from the
  left; reading goes on behind each occurrence. For the empty \<open>sub\<close> Python counts the
  gaps between the characters, one more than the length.
\<close>

function count_from :: "string \<Rightarrow> string \<Rightarrow> nat" where
  "count_from sub [] = 0"
| "count_from sub (c # cs) =
     (if sub \<noteq> [] \<and> prefix sub (c # cs)
      then 1 + count_from sub (drop (length sub) (c # cs))
      else count_from sub cs)"
  by pat_completeness auto
termination
  by (relation "measure (\<lambda>(sub, s). length s)") auto

definition str_count :: "string \<Rightarrow> string \<Rightarrow> nat" where
  "str_count s sub = (if sub = [] then length s + 1 else count_from sub s)"

definition past_indicators :: "string list" where
  "past_indicators =
     [''was'', ''were'', ''had'', ''did'', ''went'', ''saw'', ''thought'', ''said'']"

definition future_indicators :: "string list" where
  "future_indicators = [''will'', ''shall'', ''going to'', ''would be'']"

record tense_result =
  resolution :: string
  past_count :: nat
  future_count :: nat

text \<open>
  The two sums of the source, over the lowercase story. The ratio is Python's true
  division of two integers and is kept exact; 0.8 and 0.2 are the rationals four fifths
  and one fifth.
\<close>

definition count_past :: "string \<Rightarrow> nat" where
  "count_past story = sum_list (map (\<lambda>word. str_count (lower story) word) past_indicators)"

definition count_future :: "string \<Rightarrow> nat" where
  "count_future story = sum_list (map (\<lambda>word. str_count (lower story) word) future_indicators)"

definition analyze_tense_resolution :: "string \<Rightarrow> tense_result" where
  "analyze_tense_resolution story =
     (let n_past = count_past story;
          n_future = count_future story;
          total_tense_indicators = n_past + n_future
      in if total_tense_indicators = 0
         then \<lparr> resolution = ''no_clear_tense'', past_count = 0, future_count = 0 \<rparr>
         else
           (let past_ratio = (of_nat n_past / of_nat total_tense_indicators :: rat)
            in \<lparr> resolution =
                   (if past_ratio > 8 / 10 then ''followed_past_tense''
                    else if past_ratio < 2 / 10 then ''followed_future_tense''
                    else ''mixed_or_ignored''),
                 past_count = n_past,
                 future_count = n_future \<rparr>))"

section \<open>The result sink (utils.py)\<close>

text \<open>
  The values that end up in a result dictionary and in the cells of a row. A file of
  results is the list of the rows written to it, each row the list of its cells in the
  order of \<open>fieldnames\<close>; the files are a map from paths. How \<open>csv\<close> prints a cell is
  not modelled.
\<close>

datatype pyval = PInt int | PFloat rat | PStr string | PList "string list"

type_synonym row = "pyval list"

type_synonym csv_files = "string \<rightharpoonup> row list"

text \<open>The exceptions that leave the functions modelled here.\<close>

datatype py_error = TypeError | AttributeError | FileNotFoundError

text \<open>
  Opening a file that is not there creates it, which needs the directory of the path.
  utils.py creates \<open>OUTPUT_DIR\<close> when it is loaded, so for every call of one of its
  functions the directory \<open>outputs\<close> is there, like the current directory and the root;
  \<open>dirs\<close> are the other directories that exist. \<open>parent\<close> is the path up to its last
  slash. Other reasons for which a file may not open (rights, a full disk) are not
  modelled.
\<close>

definition OUTPUT_DIR :: string where
  "OUTPUT_DIR = ''outputs''"

definition parent :: "string \<Rightarrow> string" where
  "parent path =
     (let dir = rev (drop 1 (dropWhile (\<lambda>c. c \<noteq> CHR ''/'') (rev path)))
      in if CHR ''/'' \<notin> set path then ''.'' else if dir = [] then ''/'' else dir)"

definition dir_exists :: "string set \<Rightarrow> string \<Rightarrow> bool" where
  "dir_exists dirs dir = (dir = ''.'' \<or> dir = ''/'' \<or> dir = OUTPUT_DIR \<or> dir \<in> dirs)"

definition fieldnames :: "string list" where
  "fieldnames =
     [''experiment_name'', ''trial'', ''model'', ''R'', ''passed'', ''failed'',
      ''adherence'', ''prompt_len'', ''details'']"

definition header_row :: row where
  "header_row = map PStr fieldnames"

text \<open>\<open>d.get(key, default)\<close>\<close>

definition dict_get :: "(string \<rightharpoonup> pyval) \<Rightarrow> string \<Rightarrow> pyval \<Rightarrow> pyval" where
  "dict_get d key dflt = (case d key of Some v \<Rightarrow> v | None \<Rightarrow> dflt)"

text \<open>The dictionary handed to \<open>writer.writerow\<close>, as the row that \<open>DictWriter\<close> makes of it.\<close>

definition data_row :: "string \<Rightarrow> int \<Rightarrow> string \<Rightarrow> (string \<rightharpoonup> pyval) \<Rightarrow> row" where
  "data_row experiment_name trial model_name result_data =
     [PStr experiment_name,
      PInt trial,
      PStr model_name,
      dict_get result_data ''R'' (PInt 0),
      dict_get result_data ''passed_count'' (PInt 0),
      dict_get result_data ''failed_count'' (PInt 0),
      dict_get result_data ''adherence'' (PFloat 0),
      dict_get result_data ''prompt_len'' (PInt 0),
      dict_get result_data ''details'' (PStr [])]"

text \<open>
  \<open>csv_path.exists()\<close> is asked before the file is opened. Opening in mode \<open>a\<close> writes
  behind what is there, creates a file that is missing, and raises \<open>FileNotFoundError\<close>
  when the file is missing and its directory is missing too; nothing is written then.
\<close>

definition write_results_to_csv ::
  "string set \<Rightarrow> csv_files \<Rightarrow> string \<Rightarrow> string \<Rightarrow> int \<Rightarrow> string \<Rightarrow> (string \<rightharpoonup> pyval)
     \<Rightarrow> py_error + csv_files" where
  "write_results_to_csv dirs files csv_path experiment_name trial model_name result_data =
     (let file_exists = (files csv_path \<noteq> None)
      in if \<not> file_exists \<and> \<not> dir_exists dirs (parent csv_path) then Inl FileNotFoundError
         else
           (let f = (case files csv_path of None \<Rightarrow> [] | Some rows \<Rightarrow> rows);
                f = (if \<not> file_exists then f @ [header_row] else f);
                f = f @ [data_row experiment_name trial model_name result_data]
            in Inr (files(csv_path \<mapsto> f))))"

text \<open>
  A sequence of calls on one path, each with its own arguments; an exception ends it.
  Nothing but the files is handed from one call to the next, so it does not matter which
  process makes which call.
\<close>

type_synonym result_call = "string \<times> int \<times> string \<times> (string \<rightharpoonup> pyval)"

fun write_all :: "string set \<Rightarrow> csv_files \<Rightarrow> string \<Rightarrow> result_call list \<Rightarrow> py_error + csv_files" where
  "write_all dirs files csv_path [] = Inr files"
| "write_all dirs files csv_path ((experiment_name, trial, model_name, result_data) # calls) =
     (case write_results_to_csv dirs files csv_path experiment_name trial model_name result_data of
        Inl err \<Rightarrow> Inl err
      | Inr files' \<Rightarrow> write_all dirs files' csv_path calls)"

definition row_of_call :: "result_call \<Rightarrow> row" where
  "row_of_call call = (case call of (experiment_name, trial, model_name, result_data) \<Rightarrow>
     data_row experiment_name trial model_name result_data)"

section \<open>Python floats\<close>

text \<open>
  A Python float is a double. A double is a rational number, and the model keeps it as
  one. Where the code computes a float from floats, the result is the exact result rounded
  to the nearest double, to the even one of two that are equally near: \<open>double_of\<close>. A
  double has 53 binary digits; below \<open>2 ^ - 1022\<close> the digits stop at \<open>2 ^ - 1074\<close>. Numbers
  beyond the largest double do not occur here (no value is above 100).

  The quotient of two integers that a scorer returns is kept as the exact quotient; it
  stands for the double nearest to it, which \<open>double_of\<close> gives where the code goes on
  computing with it.
\<close>

fun bit_length :: "nat \<Rightarrow> nat" where
  "bit_length n = (if n = 0 then 0 else 1 + bit_length (n div 2))"

declare bit_length.simps [simp del]

text \<open>The exponent \<open>e\<close> of a positive number \<open>x\<close>: \<open>2 ^ e \<le> x < 2 ^ (e + 1)\<close>.\<close>

definition floor_log2 :: "rat \<Rightarrow> int" where
  "floor_log2 x =
     (if 1 \<le> x then int (bit_length (nat \<lfloor>x\<rfloor>)) - 1
      else - int (bit_length (nat (\<lceil>1 / x\<rceil> - 1))))"

definition round_even :: "rat \<Rightarrow> int" where
  "round_even x =
     (let f = \<lfloor>x\<rfloor>; d = x - of_int f
      in if d < 1 / 2 then f
         else if 1 / 2 < d then f + 1
         else if even f then f else f + 1)"

definition double_of :: "rat \<Rightarrow> rat" where
  "double_of x =
     (if x = 0 then 0
      else (let e = max (floor_log2 \<bar>x\<bar>) (- 1022);
                ulp = 2 powi (e - 52)
            in of_int (round_even (x / ulp)) * ulp))"

text \<open>The product and the sum of two floats.\<close>

definition fmul :: "rat \<Rightarrow> rat \<Rightarrow> rat" where
  "fmul x y = double_of (x * y)"

definition fadd :: "rat \<Rightarrow> rat \<Rightarrow> rat" where
  "fadd x y = double_of (x + y)"

section \<open>One trial of the taxonomy experiment (experiment_2_taxonomy.py)\<close>

text \<open>The constants of the module; \<open>R\<close> is written \<open>taxonomy_R\<close> here.\<close>

definition taxonomy_R :: int where
  "taxonomy_R = 20"

definition CSV_PATH :: string where
  "CSV_PATH = ''outputs/experiment_2_taxonomy.csv''"

definition build_prompt :: "string list \<Rightarrow> string \<Rightarrow> string" where
  "build_prompt rules constraint_type =
     (let header = ''Create a short story subject to the following rules:\<newline>'';
          volatile = ''Memorize these rules. Review requirements before writing. Keep in mind throughout.\<newline>\<newline>'';
          lexical_body =
            join ''\<newline>'' (map (\<lambda>word. ''- Include the word '' @ [CHR 0x27] @ word @ [CHR 0x27]) rules)
      in if constraint_type = ''structural'' then
           (let structural_rules =
                  [''Write exactly 3 paragraphs.'',
                   ''Every sentence must have 15 words or fewer.''];
                extra_body = join ''\<newline>'' (map (\<lambda>rule. ''- '' @ rule) structural_rules)
            in header @ volatile @ lexical_body @ ''\<newline>'' @ extra_body)
         else header @ volatile @ lexical_body)"

text \<open>
  The words that \<open>load_lexicon\<close> of utils.py falls back on when the word list of the
  system is missing; the rules of a trial are then drawn from them.
\<close>

definition default_words :: "string list" where
  "default_words =
     [''apple'', ''river'', ''mountain'', ''journey'', ''discovery'',
      ''whisper'', ''shadow'', ''sunlight'', ''memory'', ''horizon'']"

text \<open>
  What a trial changes: the trace of requests, log lines and sleeps, the result files, and
  the text files of the artifacts. \<open>directories\<close> are the directories that exist
  besides \<open>outputs\<close>.
\<close>

record world =
  trace :: "event list"
  csv :: csv_files
  texts :: "string \<rightharpoonup> string"
  directories :: "string set"

text \<open>\<open>save_experiment_artifacts\<close> of utils.py; \<open>OUTPUT_DIR\<close> is \<open>outputs\<close>.\<close>

definition save_experiment_artifacts ::
  "world \<Rightarrow> string \<Rightarrow> int \<Rightarrow> string \<Rightarrow> string \<Rightarrow> bool \<Rightarrow> world" where
  "save_experiment_artifacts w experiment_name trial prompt story is_first_trial =
     (if \<not> is_first_trial then w
      else w\<lparr> texts := (texts w)
                  (''outputs/'' @ experiment_name @ ''_prompt.txt'' \<mapsto> prompt,
                   ''outputs/'' @ experiment_name @ ''_story.txt'' \<mapsto> story),
              trace := trace w @ [Log_Saved experiment_name trial] \<rparr>)"

text \<open>\<open>s.replace(old, new)\<close> for single characters.\<close>

definition replace_char :: "char \<Rightarrow> char \<Rightarrow> string \<Rightarrow> string" where
  "replace_char old new s = map (\<lambda>c. if c = old then new else c) s"

text \<open>The result of the lexical check as the dictionary it is in the source.\<close>

definition lexical_dict :: "lexical_result \<Rightarrow> (string \<rightharpoonup> pyval)" where
  "lexical_dict r =
     [''passed_count'' \<mapsto> PInt (int (passed_count r)),
      ''failed_count'' \<mapsto> PInt (int (failed_count r)),
      ''passed_words'' \<mapsto> PList (passed_words r),
      ''failed_words'' \<mapsto> PList (failed_words r),
      ''adherence'' \<mapsto> PFloat (adherence r)]"

text \<open>
  The body of the innermost loop of \<open>run_experiment\<close>, for one model, constraint type and
  trial number. \<open>rules\<close> is the sample that \<open>random.sample\<close> has drawn. The call of the
  client takes the default of 3 for \<open>max_retries\<close>. Were the call to return \<open>None\<close>, the
  first use of the story would raise (\<open>write_text\<close> in the first trial,
  \<open>story_text.lower()\<close> in the others). In the structural configuration the code
  computes on with the double of the lexical adherence: two products by 0.5 and their sum,
  each rounded to a double; so does the percentage of the log line. The result file of
  the experiment is in \<open>outputs\<close>, so opening it does not fail.
\<close>

definition run_trial ::
  "backend \<Rightarrow> world \<Rightarrow> string \<Rightarrow> string \<Rightarrow> int \<Rightarrow> string list \<Rightarrow> py_error + world" where
  "run_trial chat w model constraint_type trial rules =
     (let experiment_name = ''taxonomy_'' @ constraint_type @ ''_R'' @ str_int taxonomy_R;
          prompt = build_prompt rules constraint_type;
          called = call_ollama_with_retries chat prompt model 3;
          w = w\<lparr> trace := trace w @ snd called \<rparr>
      in case fst called of
           PyNone \<Rightarrow> Inl (if trial = 1 then TypeError else AttributeError)
         | Text story \<Rightarrow>
             (let artifact_name =
                    experiment_name @ ''_'' @ replace_char CHR '':'' CHR ''_'' model;
                  w = save_experiment_artifacts w artifact_name trial prompt story (trial = 1);
                  lexical_result = check_lexical_adherence story rules;
                  structural_result = verify_structural_rules story;
                  structural_details =
                    (if constraint_type = ''structural''
                     then ''Paragraphs: '' @ str_int (int (paragraph_count structural_result))
                          @ ''/3, Long sentences: ''
                          @ str_int (int (long_sentences structural_result))
                     else []);
                  lexical_result =
                    (if constraint_type = ''structural''
                     then lexical_result\<lparr> adherence :=
                            fadd (fmul (double_of (adherence lexical_result)) (1 / 2))
                                 (fmul (structural_adherence structural_result) (1 / 2)) \<rparr>
                     else lexical_result);
                  result = (lexical_dict lexical_result)
                    (''R'' \<mapsto> PInt taxonomy_R,
                     ''prompt_len'' \<mapsto> PInt (int (length prompt)),
                     ''details'' \<mapsto>
                        PStr (strip (''Type: '' @ constraint_type @ ''. '' @ structural_details)));
                  written = write_results_to_csv (directories w) (csv w) CSV_PATH experiment_name
                              trial model result
              in case written of
                   Inl err \<Rightarrow> Inl err
                 | Inr files \<Rightarrow>
                     Inr (w\<lparr> csv := files,
                             trace := trace w
                               @ [Log_Trial model trial
                                    (fmul (double_of (adherence lexical_result)) 100)
                                    structural_details] \<rparr>)))"

section \<open>Properties of the string operations\<close>

lemma str_in_iff_sublist: "str_in sub s \<longleftrightarrow> sublist sub s"
  by (induction s) (simp_all add: sublist_Cons_right)

lemma lower_char_idem: "lower_char (lower_char c) = lower_char c"
proof -
  let ?n = "of_char c :: nat"
  show ?thesis
  proof (cases "(65 \<le> ?n \<and> ?n \<le> 90) \<or> (192 \<le> ?n \<and> ?n \<le> 222 \<and> ?n \<noteq> 215)")
    case True
    then have "?n + 32 < 256" by auto
    then have again: "(of_char (char_of (?n + 32)) :: nat) = ?n + 32" by simp
    from True have "\<not> ((65 \<le> ?n + 32 \<and> ?n + 32 \<le> 90)
        \<or> (192 \<le> ?n + 32 \<and> ?n + 32 \<le> 222 \<and> ?n + 32 \<noteq> 215))"
      by auto
    with True again show ?thesis by (simp add: lower_char_def Let_def)
  next
    case False
    then have "lower_char c = c" by (auto simp: lower_char_def Let_def)
    then show ?thesis by simp
  qed
qed

lemma lower_idem: "lower (lower s) = lower s"
  by (simp add: lower_def lower_char_idem)

section \<open>Properties of the lexical scorer\<close>

lemma length_passed_le: "length (filter P xs) \<le> length xs"
  by simp

lemma passed_plus_failed: "length (filter P xs) + length (filter (\<lambda>x. \<not> P x) xs) = length xs"
  by (induction xs) simp_all

lemma ratio_in_unit:
  fixes k n :: nat
  assumes "k \<le> n" and "n \<noteq> 0"
  shows "0 \<le> (of_nat k / of_nat n :: rat) \<and> (of_nat k / of_nat n :: rat) \<le> 1"
  using assms by (simp add: divide_le_eq)

text \<open>
  Claim C1. For every text \<open>T\<close> and list of terms \<open>R\<close>, the record returned by
  \<open>check_lexical_adherence\<close> lists as passed exactly the terms of \<open>R\<close> whose lowercase
  form is a contiguous part of the lowercase text (\<open>lower T = ps @ lower w @ ss\<close> for some
  \<open>ps\<close> and \<open>ss\<close>; no word boundary is asked for, so \<open>cat\<close> passes against \<open>category\<close>)
  and as failed the others, in the order of \<open>R\<close>; the two counts add up to the length of
  \<open>R\<close>; adherence is the passed count over the length of \<open>R\<close> when \<open>R\<close> is not empty and
  1 when it is; adherence lies between 0 and 1. The lowercase form keeps the length of a
  text, goes through concatenation, turns each of the letters A to Z into its small
  letter and leaves small letters, digits, blanks and punctuation as they are. So the case
  of the letters does not matter: against \<open>The RIVER was wide\<close> the terms \<open>river\<close> and
  \<open>WIDE\<close> pass, \<open>moon\<close> and \<open>rivers\<close> fail, and the adherence of these four is one half.
\<close>

theorem check_lexical_adherence_record:
  "passed_words (check_lexical_adherence T R)
     = filter (\<lambda>w. \<exists>ps ss. lower T = ps @ lower w @ ss) R
   \<and> failed_words (check_lexical_adherence T R)
     = filter (\<lambda>w. \<not> (\<exists>ps ss. lower T = ps @ lower w @ ss)) R
   \<and> passed_count (check_lexical_adherence T R)
     = length (passed_words (check_lexical_adherence T R))
   \<and> failed_count (check_lexical_adherence T R)
     = length (failed_words (check_lexical_adherence T R))
   \<and> passed_count (check_lexical_adherence T R) + failed_count (check_lexical_adherence T R)
     = length R
   \<and> adherence (check_lexical_adherence T R)
     = (if R = [] then 1
        else of_nat (passed_count (check_lexical_adherence T R)) / of_nat (length R))
   \<and> 0 \<le> adherence (check_lexical_adherence T R)
   \<and> adherence (check_lexical_adherence T R) \<le> 1
   \<and> passed_words (check_lexical_adherence ''category theory'' [''cat'']) = [''cat'']
   \<and> passed_words (check_lexical_adherence ''The RIVER was wide'' [''river'']) = [''river'']
   \<and> length (lower T) = length T
   \<and> lower (T @ T') = lower T @ lower T'
   \<and> lower ''ABCDEFGHIJKLMNOPQRSTUVWXYZ'' = ''abcdefghijklmnopqrstuvwxyz''
   \<and> lower ''abcdefghijklmnopqrstuvwxyz 0123456789 .,;:!?-''
     = ''abcdefghijklmnopqrstuvwxyz 0123456789 .,;:!?-''
   \<and> check_lexical_adherence ''The RIVER was wide'' [''river'', ''moon'', ''WIDE'', ''rivers'']
     = \<lparr> passed_count = 2, failed_count = 2, passed_words = [''river'', ''WIDE''],
         failed_words = [''moon'', ''rivers''], adherence = 1 / 2 \<rparr>
   \<and> check_lexical_adherence ''The river was wide'' [''moon'']
     = \<lparr> passed_count = 0, failed_count = 1, passed_words = [],
         failed_words = [''moon''], adherence = 0 \<rparr>"
proof -
  let ?r = "check_lexical_adherence T R"
  let ?Q = "\<lambda>w. \<exists>ps ss. lower T = ps @ lower w @ ss"
  have Q: "str_in (lower w) (lower T) = ?Q w" for w
    by (simp add: str_in_iff_sublist sublist_def)
  have pw: "passed_words ?r = filter ?Q R"
    by (simp add: check_lexical_adherence_def Let_def Q)
  have fw: "failed_words ?r = filter (\<lambda>w. \<not> ?Q w) R"
    by (simp add: check_lexical_adherence_def Let_def Q)
  have pc: "passed_count ?r = length (passed_words ?r)"
    by (simp add: check_lexical_adherence_def Let_def)
  have fc: "failed_count ?r = length (failed_words ?r)"
    by (simp add: check_lexical_adherence_def Let_def)
  have sum: "passed_count ?r + failed_count ?r = length R"
    unfolding pc fc pw fw by (rule passed_plus_failed)
  have ad: "adherence ?r = (if R = [] then 1 else of_nat (passed_count ?r) / of_nat (length R))"
    by (simp add: check_lexical_adherence_def Let_def)
  have le: "passed_count ?r \<le> length R"
    unfolding pc pw by (rule length_passed_le)
  have bounds: "0 \<le> adherence ?r \<and> adherence ?r \<le> 1"
  proof (cases "R = []")
    case True
    show ?thesis unfolding ad using True by simp
  next
    case False
    then have "length R \<noteq> 0" by simp
    with le have "0 \<le> (of_nat (passed_count ?r) / of_nat (length R) :: rat)
        \<and> (of_nat (passed_count ?r) / of_nat (length R) :: rat) \<le> 1"
      by (rule ratio_in_unit)
    with False show ?thesis unfolding ad by simp
  qed
  have cat: "passed_words (check_lexical_adherence ''category theory'' [''cat'']) = [''cat'']"
    by (simp add: check_lexical_adherence_def Let_def lower_def lower_char_def)
  have river:
    "passed_words (check_lexical_adherence ''The RIVER was wide'' [''river'']) = [''river'']"
    by code_simp
  have len: "length (lower T) = length T"
    by (simp add: lower_def)
  have app: "lower (T @ T') = lower T @ lower T'"
    by (simp add: lower_def)
  have upper: "lower ''ABCDEFGHIJKLMNOPQRSTUVWXYZ'' = ''abcdefghijklmnopqrstuvwxyz''"
    by code_simp
  have others: "lower ''abcdefghijklmnopqrstuvwxyz 0123456789 .,;:!?-''
     = ''abcdefghijklmnopqrstuvwxyz 0123456789 .,;:!?-''"
    by code_simp
  have mixed:
    "check_lexical_adherence ''The RIVER was wide'' [''river'', ''moon'', ''WIDE'', ''rivers'']
     = \<lparr> passed_count = 2, failed_count = 2, passed_words = [''river'', ''WIDE''],
         failed_words = [''moon'', ''rivers''], adherence = 1 / 2 \<rparr>"
    by code_simp
  have none: "check_lexical_adherence ''The river was wide'' [''moon'']
     = \<lparr> passed_count = 0, failed_count = 1, passed_words = [],
         failed_words = [''moon''], adherence = 0 \<rparr>"
    by code_simp
  from pw fw pc fc sum ad bounds cat river len app upper others mixed none show ?thesis
    by blast
qed

section \<open>Properties of the generation client\<close>

lemma retry_loop_no_attempt:
  "\<not> int attempt < max_retries \<Longrightarrow> retry_loop chat prompt model max_retries attempt = (PyNone, [])"
  by (simp add: retry_loop.simps)

lemma retry_loop_content:
  "int attempt < max_retries \<Longrightarrow> chat model prompt attempt = Content t \<Longrightarrow>
   retry_loop chat prompt model max_retries attempt = (Text t, [Chat model prompt])"
  by (simp add: retry_loop.simps)

lemma retry_loop_last_fault:
  "int attempt < max_retries \<Longrightarrow> \<not> int attempt < max_retries - 1 \<Longrightarrow>
   chat model prompt attempt = Fault e \<Longrightarrow>
   retry_loop chat prompt model max_retries attempt
     = (Text (failure_text max_retries), [Chat model prompt, Log_Failed model max_retries e])"
  by (simp add: retry_loop.simps)

lemma retry_loop_fault:
  "int attempt < max_retries - 1 \<Longrightarrow> chat model prompt attempt = Fault e \<Longrightarrow>
   retry_loop chat prompt model max_retries attempt
     = (fst (retry_loop chat prompt model max_retries (attempt + 1)),
        [Chat model prompt, Log_Retry (attempt + 1) max_retries model e (2 ^ attempt),
         Sleep (2 ^ attempt)]
        @ snd (retry_loop chat prompt model max_retries (attempt + 1)))"
  by (subst retry_loop.simps) (simp add: case_prod_beta)

lemma retry_loop_returns_text:
  "int attempt < max_retries \<Longrightarrow> \<exists>t. fst (retry_loop chat prompt model max_retries attempt) = Text t"
proof (induction chat prompt model max_retries attempt rule: retry_loop.induct)
  case (1 chat prompt model max_retries attempt)
  show ?case
  proof (cases "chat model prompt attempt")
    case (Content t)
    with "1.prems" show ?thesis by (simp add: retry_loop_content)
  next
    case (Fault e)
    show ?thesis
    proof (cases "int attempt < max_retries - 1")
      case True
      with "1.prems" Fault
      have "\<exists>t. fst (retry_loop chat prompt model max_retries (attempt + 1)) = Text t"
        by (intro "1.IH") auto
      with True Fault show ?thesis by (simp add: retry_loop_fault)
    next
      case False
      with "1.prems" Fault show ?thesis by (simp add: retry_loop_last_fault)
    qed
  qed
qed

lemma retry_loop_trace_nonempty:
  "int attempt < max_retries \<Longrightarrow> snd (retry_loop chat prompt model max_retries attempt) \<noteq> []"
  by (subst retry_loop.simps) (simp split: outcome.split prod.split)

lemma retry_loop_exhausted:
  assumes "\<forall>k. int k < max_retries \<longrightarrow> (\<exists>e. chat model prompt k = Fault e)"
    and "int attempt < max_retries"
  shows "fst (retry_loop chat prompt model max_retries attempt) = Text (failure_text max_retries)
     \<and> sleeps (snd (retry_loop chat prompt model max_retries attempt))
         = map (\<lambda>k. 2 ^ k) [attempt ..< nat max_retries - 1]
     \<and> (\<exists>e. last (snd (retry_loop chat prompt model max_retries attempt))
               = Log_Failed model max_retries e)"
  using assms
proof (induction chat prompt model max_retries attempt rule: retry_loop.induct)
  case (1 chat prompt model max_retries attempt)
  from "1.prems" obtain e where e: "chat model prompt attempt = Fault e" by blast
  show ?case
  proof (cases "int attempt < max_retries - 1")
    case True
    let ?rest = "retry_loop chat prompt model max_retries (attempt + 1)"
    from "1.prems" True e
    have IH: "fst ?rest = Text (failure_text max_retries)
       \<and> sleeps (snd ?rest) = map (\<lambda>k. 2 ^ k) [attempt + 1 ..< nat max_retries - 1]
       \<and> (\<exists>e. last (snd ?rest) = Log_Failed model max_retries e)"
      by (intro "1.IH") auto
    from True have ne: "snd ?rest \<noteq> []"
      by (intro retry_loop_trace_nonempty) simp
    from True have "attempt < nat max_retries - 1" by linarith
    then have up: "[attempt ..< nat max_retries - 1] = attempt # [attempt + 1 ..< nat max_retries - 1]"
      by (simp add: upt_conv_Cons)
    from IH ne True e up show ?thesis
      by (simp add: retry_loop_fault)
  next
    case False
    with "1.prems" have "\<not> attempt < nat max_retries - 1" by linarith
    with False "1.prems" e show ?thesis
      by (simp add: retry_loop_last_fault)
  qed
qed


text \<open>
  \<open>str_nat\<close> writes a number in decimal: its characters are digits, and read back as a
  decimal numeral they give the number.
\<close>

lemma of_char_digit: "d < 10 \<Longrightarrow> (of_char (char_of (48 + d :: nat)) :: nat) = 48 + d"
  by simp

lemma str_nat_digits: "c \<in> set (str_nat n) \<Longrightarrow> 48 \<le> (of_char c :: nat) \<and> (of_char c :: nat) < 58"
proof (induction n arbitrary: c rule: str_nat.induct)
  case (1 n)
  show ?case
  proof (cases "n < 10")
    case True
    with "1.prems" have "c = char_of (48 + n)" by (simp add: str_nat.simps [of n])
    with True show ?thesis by (simp add: of_char_digit)
  next
    case False
    with "1.prems" have "c \<in> set (str_nat (n div 10)) \<or> c = char_of (48 + n mod 10)"
      by (auto simp: str_nat.simps [of n])
    then show ?thesis
    proof
      assume "c \<in> set (str_nat (n div 10))"
      with False show ?thesis by (intro "1.IH") simp_all
    next
      assume "c = char_of (48 + n mod 10)"
      moreover have "n mod 10 < 10" by simp
      ultimately show ?thesis by (simp only: of_char_digit) simp
    qed
  qed
qed

lemma str_nat_value: "foldl (\<lambda>v c. 10 * v + (of_char c - 48)) 0 (str_nat n) = n"
proof (induction n rule: str_nat.induct)
  case (1 n)
  show ?case
  proof (cases "n < 10")
    case True
    then show ?thesis by (simp add: str_nat.simps [of n])
  next
    case False
    with 1 have "foldl (\<lambda>v c. 10 * v + (of_char c - 48)) 0 (str_nat (n div 10)) = n div 10"
      by simp
    moreover have "(of_char (char_of (48 + n mod 10)) :: nat) = 48 + n mod 10"
      by (rule of_char_digit) simp
    ultimately show ?thesis using False by (simp add: str_nat.simps [of n])
  qed
qed

lemma str_int_3: "str_int 3 = ''3''"
  by code_simp

text \<open>
  Claim C3. For every prompt, model and \<open>max_retries\<close> of at least 1: when each of the
  \<open>max_retries\<close> attempts raises, \<open>call_ollama_with_retries\<close> returns (the model is a
  total function, and an exception would have no value here) the text
  \<open>ERROR: Failed to generate response after N attempts\<close>, \<open>N\<close> being \<open>max_retries\<close> in
  decimal.
\<close>

theorem exhausted_retries_return_failure_text:
  assumes "1 \<le> max_retries"
    and "\<forall>attempt. int attempt < max_retries \<longrightarrow> (\<exists>e. chat model prompt attempt = Fault e)"
  shows "fst (call_ollama_with_retries chat prompt model max_retries)
     = Text (''ERROR: Failed to generate response after '' @ str_int max_retries @ '' attempts'')"
proof -
  from assms(1) have "int 0 < max_retries" by simp
  with assms(2) have "fst (retry_loop chat prompt model max_retries 0) = Text (failure_text max_retries)"
    using retry_loop_exhausted by blast
  then show ?thesis
    by (simp add: call_ollama_with_retries_def failure_text_def)
qed

theorem exhausted_retries_witness:
  "(1::int) \<le> 3
   \<and> fst (call_ollama_with_retries (\<lambda>model prompt attempt. Fault ''connection refused'')
             ''Create a short story'' ''phi3:3.8b'' 3)
     = Text ''ERROR: Failed to generate response after 3 attempts''"
  using exhausted_retries_return_failure_text
    [of 3 "\<lambda>model prompt attempt. Fault ''connection refused''" "''phi3:3.8b''"
        "''Create a short story''"]
  by (simp add: str_int_3)

text \<open>
  Claim C4. With \<open>max_retries\<close> of at least 3, a call whose first two attempts raise and
  whose third succeeds returns the text of the third attempt, and all it does is: request,
  warning, sleep of 1, request, warning, sleep of 2, request; the sleep after the attempt of
  index \<open>a\<close> lasts \<open>2 ^ a\<close>. When all \<open>max_retries\<close> attempts raise, the sleeps are those
  after the attempts of index 0 to \<open>max_retries - 2\<close>, and the last attempt is followed by
  the error line only, not by a sleep.
\<close>

theorem two_faults_then_success:
  "(3 \<le> max_retries \<and> chat model prompt 0 = Fault e0 \<and> chat model prompt 1 = Fault e1
      \<and> chat model prompt 2 = Content t
    \<longrightarrow> call_ollama_with_retries chat prompt model max_retries
          = (Text t,
             [Chat model prompt, Log_Retry 1 max_retries model e0 (2 ^ 0), Sleep (2 ^ 0),
              Chat model prompt, Log_Retry 2 max_retries model e1 (2 ^ 1), Sleep (2 ^ 1),
              Chat model prompt])
        \<and> sleeps (snd (call_ollama_with_retries chat prompt model max_retries)) = [1, 2])
   \<and> (1 \<le> max_retries
        \<and> (\<forall>attempt. int attempt < max_retries \<longrightarrow> (\<exists>e. chat model prompt attempt = Fault e))
    \<longrightarrow> sleeps (snd (call_ollama_with_retries chat prompt model max_retries))
          = map (\<lambda>attempt. 2 ^ attempt) [0 ..< nat max_retries - 1]
        \<and> (\<exists>e. last (snd (call_ollama_with_retries chat prompt model max_retries))
                  = Log_Failed model max_retries e))"
proof (intro conjI impI)
  assume a: "3 \<le> max_retries \<and> chat model prompt 0 = Fault e0 \<and> chat model prompt 1 = Fault e1
      \<and> chat model prompt 2 = Content t"
  then have third: "retry_loop chat prompt model max_retries 2 = (Text t, [Chat model prompt])"
    by (simp add: retry_loop_content)
  from a have second: "retry_loop chat prompt model max_retries 1
      = (Text t, [Chat model prompt, Log_Retry 2 max_retries model e1 (2 ^ 1), Sleep (2 ^ 1),
                  Chat model prompt])"
    using retry_loop_fault [of 1 max_retries chat model prompt e1] third
    by (simp add: numeral_2_eq_2)
  from a have first: "retry_loop chat prompt model max_retries 0
      = (Text t, [Chat model prompt, Log_Retry 1 max_retries model e0 (2 ^ 0), Sleep (2 ^ 0),
                  Chat model prompt, Log_Retry 2 max_retries model e1 (2 ^ 1), Sleep (2 ^ 1),
                  Chat model prompt])"
    using retry_loop_fault [of 0 max_retries chat model prompt e0] second
    by simp
  from first show "call_ollama_with_retries chat prompt model max_retries
          = (Text t,
             [Chat model prompt, Log_Retry 1 max_retries model e0 (2 ^ 0), Sleep (2 ^ 0),
              Chat model prompt, Log_Retry 2 max_retries model e1 (2 ^ 1), Sleep (2 ^ 1),
              Chat model prompt])"
    by (simp add: call_ollama_with_retries_def)
  from first show "sleeps (snd (call_ollama_with_retries chat prompt model max_retries)) = [1, 2]"
    by (simp add: call_ollama_with_retries_def)
next
  assume b: "1 \<le> max_retries
        \<and> (\<forall>attempt. int attempt < max_retries \<longrightarrow> (\<exists>e. chat model prompt attempt = Fault e))"
  then have "int 0 < max_retries" by simp
  with b have all: "sleeps (snd (retry_loop chat prompt model max_retries 0))
         = map (\<lambda>k. 2 ^ k) [0 ..< nat max_retries - 1]
     \<and> (\<exists>e. last (snd (retry_loop chat prompt model max_retries 0))
               = Log_Failed model max_retries e)"
    using retry_loop_exhausted [of max_retries chat model prompt 0] by blast
  from all show "sleeps (snd (call_ollama_with_retries chat prompt model max_retries))
          = map (\<lambda>attempt. 2 ^ attempt) [0 ..< nat max_retries - 1]"
    by (simp add: call_ollama_with_retries_def)
  from all show "\<exists>e. last (snd (call_ollama_with_retries chat prompt model max_retries))
                  = Log_Failed model max_retries e"
    by (simp add: call_ollama_with_retries_def)
qed

theorem two_faults_then_success_witness:
  "call_ollama_with_retries
      (\<lambda>model prompt attempt. if attempt < 2 then Fault ''timed out'' else Content ''Once upon a time.'')
      ''Create a short story'' ''gemma2:2b'' 3
     = (Text ''Once upon a time.'',
        [Chat ''gemma2:2b'' ''Create a short story'',
         Log_Retry 1 3 ''gemma2:2b'' ''timed out'' 1, Sleep 1,
         Chat ''gemma2:2b'' ''Create a short story'',
         Log_Retry 2 3 ''gemma2:2b'' ''timed out'' 2, Sleep 2,
         Chat ''gemma2:2b'' ''Create a short story''])
   \<and> sleeps (snd (call_ollama_with_retries (\<lambda>model prompt attempt. Fault ''timed out'')
                     ''Create a short story'' ''gemma2:2b'' 4))
     = [1, 2, 4]
   \<and> last (snd (call_ollama_with_retries (\<lambda>model prompt attempt. Fault ''timed out'')
                     ''Create a short story'' ''gemma2:2b'' 4))
     = Log_Failed ''gemma2:2b'' 4 ''timed out''"
proof -
  have 1: "call_ollama_with_retries
      (\<lambda>model prompt attempt. if attempt < 2 then Fault ''timed out'' else Content ''Once upon a time.'')
      ''Create a short story'' ''gemma2:2b'' 3
     = (Text ''Once upon a time.'',
        [Chat ''gemma2:2b'' ''Create a short story'',
         Log_Retry 1 3 ''gemma2:2b'' ''timed out'' 1, Sleep 1,
         Chat ''gemma2:2b'' ''Create a short story'',
         Log_Retry 2 3 ''gemma2:2b'' ''timed out'' 2, Sleep 2,
         Chat ''gemma2:2b'' ''Create a short story''])"
    using two_faults_then_success
      [of 3 "\<lambda>model prompt attempt. if attempt < 2 then Fault ''timed out'' else Content ''Once upon a time.''"
          "''gemma2:2b''" "''Create a short story''" "''timed out''" "''timed out''"
          "''Once upon a time.''"]
    by simp
  have 2: "sleeps (snd (call_ollama_with_retries (\<lambda>model prompt attempt. Fault ''timed out'')
                     ''Create a short story'' ''gemma2:2b'' 4))
     = [1, 2, 4]
   \<and> (\<exists>e. last (snd (call_ollama_with_retries (\<lambda>model prompt attempt. Fault ''timed out'')
                     ''Create a short story'' ''gemma2:2b'' 4))
     = Log_Failed ''gemma2:2b'' 4 e)"
    using two_faults_then_success
      [of 4 "\<lambda>model prompt attempt. Fault ''timed out''"
          "''gemma2:2b''" "''Create a short story''"]
    by (simp add: upt_rec)
  have 3: "last (snd (call_ollama_with_retries (\<lambda>model prompt attempt. Fault ''timed out'')
                     ''Create a short story'' ''gemma2:2b'' 4))
     = Log_Failed ''gemma2:2b'' 4 ''timed out''"
    by code_simp
  from 1 2 3 show ?thesis by simp
qed

text \<open>
  Claim C10. With \<open>max_retries\<close> of 0 or less the loop body never runs: no request is
  sent, nothing is logged or slept, and the call returns \<open>None\<close>, which is neither a
  generated text nor the failure text. With \<open>max_retries\<close> of at least 1 the call
  returns a text whatever the backend does. So the call returns a string exactly when
  \<open>max_retries\<close> is at least 1.
\<close>

theorem no_attempts_returns_none:
  "(max_retries \<le> 0 \<longrightarrow> call_ollama_with_retries chat prompt model max_retries = (PyNone, []))
   \<and> (1 \<le> max_retries \<longrightarrow> (\<exists>t. fst (call_ollama_with_retries chat prompt model max_retries) = Text t))"
proof (intro conjI impI)
  assume "max_retries \<le> 0"
  then have "\<not> int 0 < max_retries" by simp
  then show "call_ollama_with_retries chat prompt model max_retries = (PyNone, [])"
    unfolding call_ollama_with_retries_def by (rule retry_loop_no_attempt)
next
  assume "1 \<le> max_retries"
  then have "int 0 < max_retries" by simp
  then show "\<exists>t. fst (call_ollama_with_retries chat prompt model max_retries) = Text t"
    unfolding call_ollama_with_retries_def by (rule retry_loop_returns_text)
qed

theorem no_attempts_returns_none_witness:
  "call_ollama_with_retries (\<lambda>model prompt attempt. Content ''Once upon a time.'')
      ''Create a short story'' ''qwen2:1.5b'' 0 = (PyNone, [])
   \<and> call_ollama_with_retries (\<lambda>model prompt attempt. Content ''Once upon a time.'')
      ''Create a short story'' ''qwen2:1.5b'' (- 2) = (PyNone, [])
   \<and> (\<exists>t. fst (call_ollama_with_retries (\<lambda>model prompt attempt. Fault ''timed out'')
      ''Create a short story'' ''qwen2:1.5b'' 1) = Text t)"
  using no_attempts_returns_none
      [of 0 "\<lambda>model prompt attempt. Content ''Once upon a time.''" "''Create a short story''"
          "''qwen2:1.5b''"]
    no_attempts_returns_none
      [of "- 2" "\<lambda>model prompt attempt. Content ''Once upon a time.''" "''Create a short story''"
          "''qwen2:1.5b''"]
    no_attempts_returns_none
      [of 1 "\<lambda>model prompt attempt. Fault ''timed out''" "''Create a short story''"
          "''qwen2:1.5b''"]
  by simp

section \<open>Properties of splitting and stripping\<close>

lemma split_sep_not_Nil: "split_sep sep s \<noteq> []"
  by (induction sep s rule: split_sep.induct) (auto split: list.split)

lemma join_Cons: "ys \<noteq> [] \<Longrightarrow> join sep (x # ys) = x @ sep @ join sep ys"
  by (cases ys) simp_all

lemma join_split_sep: "join sep (split_sep sep s) = s"
proof (induction sep s rule: split_sep.induct)
  case (1 sep)
  show ?case by simp
next
  case (2 sep c cs)
  show ?case
  proof (cases "sep \<noteq> [] \<and> prefix sep (c # cs)")
    case True
    then have "c # cs = sep @ drop (length sep) (c # cs)"
      by (metis append_eq_conv_conj prefix_def)
    with True 2 show ?thesis
      by (simp add: join_Cons split_sep_not_Nil)
  next
    case False
    obtain p ps where pps: "split_sep sep cs = p # ps"
      using split_sep_not_Nil [of sep cs] by (cases "split_sep sep cs") auto
    with False 2 have "join sep (p # ps) = cs" by simp
    then have "join sep ((c # p) # ps) = c # cs"
      by (cases ps) simp_all
    with False pps show ?thesis by auto
  qed
qed

lemma hd_split_sep_prefix: "prefix (hd (split_sep sep s)) s"
  by (induction sep s rule: split_sep.induct) (auto split: list.split)

lemma split_sep_pieces_free:
  assumes "sep \<noteq> []" and "p \<in> set (split_sep sep s)"
  shows "\<not> sublist sep p"
  using assms
proof (induction sep s arbitrary: p rule: split_sep.induct)
  case (1 sep)
  then show ?case by simp
next
  case (2 sep c cs)
  show ?case
  proof (cases "prefix sep (c # cs)")
    case True
    with "2.prems" have "p = [] \<or> p \<in> set (split_sep sep (drop (length sep) (c # cs)))"
      by simp
    then show ?thesis
    proof
      assume "p = []"
      with "2.prems" show ?thesis by simp
    next
      assume "p \<in> set (split_sep sep (drop (length sep) (c # cs)))"
      with True "2.prems" show ?thesis by (intro "2.IH"(1)) simp_all
    qed
  next
    case False
    obtain q qs where qqs: "split_sep sep cs = q # qs"
      using split_sep_not_Nil [of sep cs] by (cases "split_sep sep cs") auto
    with False "2.prems" have "p = c # q \<or> p \<in> set qs" by simp
    then show ?thesis
    proof
      assume p: "p = c # q"
      have "prefix q cs" using hd_split_sep_prefix [of sep cs] qqs by simp
      then have pre: "prefix (c # q) (c # cs)" by simp
      have "\<not> prefix sep (c # q)"
        using False pre prefix_order.trans by blast
      moreover have "\<not> sublist sep q"
        using False "2.prems" qqs by (intro "2.IH"(2)) simp_all
      ultimately show ?thesis by (simp add: p sublist_Cons_right)
    next
      assume "p \<in> set qs"
      with False "2.prems" qqs show ?thesis by (intro "2.IH"(2)) simp_all
    qed
  qed
qed

lemma strip_no_outer_space:
  "strip s = [] \<or> (\<not> is_space (hd (strip s)) \<and> \<not> is_space (last (strip s)))"
proof (cases "dropWhile is_space s = []")
  case True
  show ?thesis by (simp add: strip_def True)
next
  case False
  let ?t = "dropWhile is_space s"
  let ?u = "dropWhile is_space (rev ?t)"
  from False have first: "\<not> is_space (hd ?t)" by (rule hd_dropWhile)
  with False have "\<not> is_space (last (rev ?t))" by (simp add: last_rev)
  then have u_ne: "?u \<noteq> []"
    by (metis False dropWhile_eq_Nil_conv last_in_set rev_is_Nil_conv)
  then have "\<not> is_space (hd ?u)" by (rule hd_dropWhile)
  with u_ne have last: "\<not> is_space (last (strip s))" by (simp add: strip_def last_rev)
  have "\<exists>xs. rev ?t = xs @ ?u" by (metis takeWhile_dropWhile_id)
  then obtain xs where "rev ?t = xs @ ?u" by blast
  then have "?t = rev ?u @ rev xs" by (metis rev_append rev_rev_ident)
  with u_ne have "hd ?t = hd (rev ?u)" by (metis hd_append2 rev_is_Nil_conv)
  with first have "\<not> is_space (hd (strip s))" by (simp add: strip_def)
  with last show ?thesis by simp
qed

lemma split_ws_words:
  "w \<in> set (split_ws s) \<Longrightarrow> w \<noteq> [] \<and> (\<forall>c \<in> set w. \<not> is_space c)"
proof (induction s arbitrary: w rule: split_ws.induct)
  case (1 s)
  show ?case
  proof (cases "dropWhile is_space s")
    case Nil
    with "1.prems" show ?thesis by (simp add: split_ws.simps [of s])
  next
    case (Cons c cs)
    then have c: "\<not> is_space c" using hd_dropWhile [of is_space s] by simp
    from "1.prems" Cons
    have "w = takeWhile (\<lambda>x. \<not> is_space x) (c # cs)
        \<or> w \<in> set (split_ws (dropWhile (\<lambda>x. \<not> is_space x) cs))"
      by (simp add: split_ws.simps [of s])
    then show ?thesis
    proof
      assume w: "w = takeWhile (\<lambda>x. \<not> is_space x) (c # cs)"
      with c have "w \<noteq> []" by simp
      moreover have "\<forall>x \<in> set w. \<not> is_space x"
        unfolding w using set_takeWhileD by fastforce
      ultimately show ?thesis by simp
    next
      assume "w \<in> set (split_ws (dropWhile (\<lambda>x. \<not> is_space x) cs))"
      with Cons show ?thesis by (intro "1.IH") simp_all
    qed
  qed
qed

section \<open>Properties of the structural scorer\<close>

lemma count_long_in_eq:
  "count_long_in sents n = n + length (filter (\<lambda>sent. 15 < length (split_ws sent)) sents)"
  by (induction sents arbitrary: n) simp_all

lemma count_long_eq:
  "count_long paras n
     = n + length (filter (\<lambda>sent. 15 < length (split_ws sent)) (concat (map sentences_of paras)))"
  by (induction paras arbitrary: n) (simp_all add: count_long_in_eq)

text \<open>
  Claim C5. For every text \<open>T\<close>, \<open>verify_structural_rules\<close> counts as paragraphs the
  pieces of \<open>T\<close> between blank lines that are not empty once stripped, and as long
  sentences the pieces between periods of these paragraphs (again not empty once stripped)
  that have more than 15 words; \<open>structural_adherence\<close> is the mean of two checks worth 0
  or 1 each, that there are exactly 3 paragraphs and that there is no long sentence, and
  so is 0, one half or 1. Three paragraphs without a long sentence give 1, two paragraphs
  without a long sentence give one half; a long sentence takes one half off. On texts: a
  sentence of 16 words is long and one of 15 words is not; two sentences of 10 words each
  are not one long sentence; a paragraph of blanks and tabs is no paragraph, and the words
  of a sentence may stand on several lines.
\<close>

theorem verify_structural_rules_score:
  "paragraph_count (verify_structural_rules T)
     = length (filter (\<lambda>p. strip p \<noteq> []) (split_sep ''\<newline>\<newline>'' T))
   \<and> long_sentences (verify_structural_rules T)
     = length (filter (\<lambda>sent. 15 < length (split_ws sent))
                 (concat (map (\<lambda>para. map strip (filter (\<lambda>s. strip s \<noteq> []) (split_sep ''.'' para)))
                            (paragraphs_of T))))
   \<and> structural_adherence (verify_structural_rules T)
     = ((if paragraph_count (verify_structural_rules T) = 3 then 1 else 0)
        + (if long_sentences (verify_structural_rules T) = 0 then 1 else 0)) / 2
   \<and> structural_adherence (verify_structural_rules T) \<in> {0, 1 / 2, 1}
   \<and> (paragraph_count (verify_structural_rules T) = 3
        \<and> long_sentences (verify_structural_rules T) = 0
      \<longrightarrow> structural_adherence (verify_structural_rules T) = 1)
   \<and> (paragraph_count (verify_structural_rules T) = 2
        \<and> long_sentences (verify_structural_rules T) = 0
      \<longrightarrow> structural_adherence (verify_structural_rules T) = 1 / 2)
   \<and> (paragraph_count (verify_structural_rules T) = 3
        \<and> 0 < long_sentences (verify_structural_rules T)
      \<longrightarrow> structural_adherence (verify_structural_rules T) = 1 / 2)
   \<and> (paragraph_count (verify_structural_rules T) \<noteq> 3
        \<and> 0 < long_sentences (verify_structural_rules T)
      \<longrightarrow> structural_adherence (verify_structural_rules T) = 0)
   \<and> verify_structural_rules
        ''one two three four five six seven eight nine ten eleven twelve thirteen fourteen fifteen sixteen.''
     = \<lparr> paragraph_count = 1, long_sentences = 1, structural_adherence = 0 \<rparr>
   \<and> verify_structural_rules
        ''one two three four five six seven eight nine ten eleven twelve thirteen fourteen fifteen.''
     = \<lparr> paragraph_count = 1, long_sentences = 0, structural_adherence = 1 / 2 \<rparr>
   \<and> verify_structural_rules ''a b c d e f g h i j. k l m n o p q r s t.''
     = \<lparr> paragraph_count = 1, long_sentences = 0, structural_adherence = 1 / 2 \<rparr>
   \<and> verify_structural_rules
        (''  Short one. \<newline>\<newline> '' @ [CHR 0x09] @ '' \<newline>\<newline>The second.\<newline>\<newline>\<newline>\<newline>''
         @ ''a b c d e f g h\<newline>i j k l m n o p. End.\<newline>'')
     = \<lparr> paragraph_count = 3, long_sentences = 1, structural_adherence = 1 / 2 \<rparr>"
proof -
  let ?r = "verify_structural_rules T"
  have pc: "paragraph_count ?r
      = length (filter (\<lambda>p. strip p \<noteq> []) (split_sep ''\<newline>\<newline>'' T))"
    by (simp add: verify_structural_rules_def Let_def paragraphs_of_def)
  have "sentences_of = (\<lambda>para. map strip (filter (\<lambda>s. strip s \<noteq> []) (split_sep ''.'' para)))"
    by (rule ext) (simp add: sentences_of_def)
  then have ls: "long_sentences ?r
      = length (filter (\<lambda>sent. 15 < length (split_ws sent))
                 (concat (map (\<lambda>para. map strip (filter (\<lambda>s. strip s \<noteq> []) (split_sep ''.'' para)))
                            (paragraphs_of T))))"
    by (simp add: verify_structural_rules_def Let_def count_long_eq)
  have sa: "structural_adherence ?r
      = ((if paragraph_count ?r = 3 then 1 else 0) + (if long_sentences ?r = 0 then 1 else 0)) / 2"
    by (simp add: verify_structural_rules_def Let_def)
  have range: "structural_adherence ?r \<in> {0, 1 / 2, 1}"
    unfolding sa by simp
  have three: "paragraph_count ?r = 3 \<and> long_sentences ?r = 0 \<longrightarrow> structural_adherence ?r = 1"
    unfolding sa by simp
  have two: "paragraph_count ?r = 2 \<and> long_sentences ?r = 0 \<longrightarrow> structural_adherence ?r = 1 / 2"
    unfolding sa by simp
  have three_long: "paragraph_count ?r = 3 \<and> 0 < long_sentences ?r
      \<longrightarrow> structural_adherence ?r = 1 / 2"
    unfolding sa by simp
  have other_long: "paragraph_count ?r \<noteq> 3 \<and> 0 < long_sentences ?r
      \<longrightarrow> structural_adherence ?r = 0"
    unfolding sa by simp
  have sixteen: "verify_structural_rules
        ''one two three four five six seven eight nine ten eleven twelve thirteen fourteen fifteen sixteen.''
     = \<lparr> paragraph_count = 1, long_sentences = 1, structural_adherence = 0 \<rparr>"
    by code_simp
  have fifteen: "verify_structural_rules
        ''one two three four five six seven eight nine ten eleven twelve thirteen fourteen fifteen.''
     = \<lparr> paragraph_count = 1, long_sentences = 0, structural_adherence = 1 / 2 \<rparr>"
    by code_simp
  have tens: "verify_structural_rules ''a b c d e f g h i j. k l m n o p q r s t.''
     = \<lparr> paragraph_count = 1, long_sentences = 0, structural_adherence = 1 / 2 \<rparr>"
    by code_simp
  have blanks: "verify_structural_rules
        (''  Short one. \<newline>\<newline> '' @ [CHR 0x09] @ '' \<newline>\<newline>The second.\<newline>\<newline>\<newline>\<newline>''
         @ ''a b c d e f g h\<newline>i j k l m n o p. End.\<newline>'')
     = \<lparr> paragraph_count = 3, long_sentences = 1, structural_adherence = 1 / 2 \<rparr>"
    by code_simp
  show ?thesis
    by (intro conjI pc ls sa range three two three_long other_long sixteen fifteen tens blanks)
qed

theorem verify_structural_rules_score_witness:
  "structural_adherence (verify_structural_rules
      ''The river was wide. Mia saw a boat.\<newline>\<newline>She went home.\<newline>\<newline>It was late.'') = 1
   \<and> structural_adherence (verify_structural_rules
      ''The river was wide. Mia saw a boat.\<newline>\<newline>She went home.'') = 1 / 2
   \<and> structural_adherence (verify_structural_rules
      ''One.\<newline>\<newline>Two.\<newline>\<newline>a b c d e f g h i j k l m n o p.'') = 1 / 2
   \<and> structural_adherence (verify_structural_rules
      ''One.\<newline>\<newline>a b c d e f g h i j k l m n o p.'') = 0"
proof -
  let ?three = "''The river was wide. Mia saw a boat.\<newline>\<newline>She went home.\<newline>\<newline>It was late.''"
  let ?two = "''The river was wide. Mia saw a boat.\<newline>\<newline>She went home.''"
  let ?three_long = "''One.\<newline>\<newline>Two.\<newline>\<newline>a b c d e f g h i j k l m n o p.''"
  let ?two_long = "''One.\<newline>\<newline>a b c d e f g h i j k l m n o p.''"
  have "paragraphs_of ?three = [''The river was wide. Mia saw a boat.'', ''She went home.'', ''It was late.'']"
    by code_simp
  moreover have "count_long [''The river was wide. Mia saw a boat.'', ''She went home.'', ''It was late.''] 0 = 0"
    by code_simp
  ultimately have three: "paragraph_count (verify_structural_rules ?three) = 3
      \<and> long_sentences (verify_structural_rules ?three) = 0"
    by (simp add: verify_structural_rules_def)
  have "paragraphs_of ?two = [''The river was wide. Mia saw a boat.'', ''She went home.'']"
    by code_simp
  moreover have "count_long [''The river was wide. Mia saw a boat.'', ''She went home.''] 0 = 0"
    by code_simp
  ultimately have two: "paragraph_count (verify_structural_rules ?two) = 2
      \<and> long_sentences (verify_structural_rules ?two) = 0"
    by (simp add: verify_structural_rules_def)
  have "paragraphs_of ?three_long = [''One.'', ''Two.'', ''a b c d e f g h i j k l m n o p.'']"
    by code_simp
  moreover have "count_long [''One.'', ''Two.'', ''a b c d e f g h i j k l m n o p.''] 0 = 1"
    by code_simp
  ultimately have three_long: "paragraph_count (verify_structural_rules ?three_long) = 3
      \<and> 0 < long_sentences (verify_structural_rules ?three_long)"
    by (simp add: verify_structural_rules_def)
  have "paragraphs_of ?two_long = [''One.'', ''a b c d e f g h i j k l m n o p.'']"
    by code_simp
  moreover have "count_long [''One.'', ''a b c d e f g h i j k l m n o p.''] 0 = 1"
    by code_simp
  ultimately have two_long: "paragraph_count (verify_structural_rules ?two_long) \<noteq> 3
      \<and> 0 < long_sentences (verify_structural_rules ?two_long)"
    by (simp add: verify_structural_rules_def)
  have full: "paragraph_count (verify_structural_rules T) = 3
        \<and> long_sentences (verify_structural_rules T) = 0
      \<longrightarrow> structural_adherence (verify_structural_rules T) = 1" for T
    using verify_structural_rules_score [of T] by (elim conjE) assumption
  have half: "paragraph_count (verify_structural_rules T) = 2
        \<and> long_sentences (verify_structural_rules T) = 0
      \<longrightarrow> structural_adherence (verify_structural_rules T) = 1 / 2" for T
    using verify_structural_rules_score [of T] by (elim conjE) assumption
  have long_half: "paragraph_count (verify_structural_rules T) = 3
        \<and> 0 < long_sentences (verify_structural_rules T)
      \<longrightarrow> structural_adherence (verify_structural_rules T) = 1 / 2" for T
    using verify_structural_rules_score [of T] by (elim conjE) assumption
  have long_none: "paragraph_count (verify_structural_rules T) \<noteq> 3
        \<and> 0 < long_sentences (verify_structural_rules T)
      \<longrightarrow> structural_adherence (verify_structural_rules T) = 0" for T
    using verify_structural_rules_score [of T] by (elim conjE) assumption
  from three full [of ?three] have 1: "structural_adherence (verify_structural_rules ?three) = 1"
    by (rule rev_mp)
  from two half [of ?two] have 2: "structural_adherence (verify_structural_rules ?two) = 1 / 2"
    by (rule rev_mp)
  from three_long long_half [of ?three_long]
  have 3: "structural_adherence (verify_structural_rules ?three_long) = 1 / 2"
    by (rule rev_mp)
  from two_long long_none [of ?two_long]
  have 4: "structural_adherence (verify_structural_rules ?two_long) = 0"
    by (rule rev_mp)
  show ?thesis by (intro conjI 1 2 3 4)
qed

section \<open>The empty text\<close>

lemma filter_none: "(\<forall>x \<in> set xs. \<not> P x) \<Longrightarrow> filter P xs = []"
  by simp

lemma filter_all: "(\<forall>x \<in> set xs. P x) \<Longrightarrow> filter P xs = xs"
  by simp

text \<open>
  Claim C9. For the empty generated text and every constraint set (its lexical terms are
  tokens, so none of them is the empty string), \<open>check_lexical_adherence\<close> reports every
  term as failed: \<open>passed_count\<close> is 0, the failed terms are the whole set, and the
  adherence of a set that is not empty is 0. What passes against the empty text is the
  empty string alone. \<open>verify_structural_rules\<close> reports no paragraph for the empty text,
  which fails the check for exactly 3 paragraphs; the check of the sentences passes, so
  the score is one half.
\<close>

theorem empty_text_scores:
  "passed_words (check_lexical_adherence [] R) = filter (\<lambda>w. w = []) R
   \<and> ((\<forall>w \<in> set R. w \<noteq> [])
        \<longrightarrow> passed_count (check_lexical_adherence [] R) = 0
          \<and> failed_count (check_lexical_adherence [] R) = length R
          \<and> failed_words (check_lexical_adherence [] R) = R
          \<and> adherence (check_lexical_adherence [] R) = (if R = [] then 1 else 0))
   \<and> paragraph_count (verify_structural_rules []) = 0
   \<and> paragraph_count (verify_structural_rules []) \<noteq> 3
   \<and> structural_adherence (verify_structural_rules []) = 1 / 2"
proof -
  have pw: "passed_words (check_lexical_adherence [] R) = filter (\<lambda>w. w = []) R"
    by (simp add: check_lexical_adherence_def Let_def lower_def)
  have nonempty: "passed_count (check_lexical_adherence [] R) = 0
          \<and> failed_count (check_lexical_adherence [] R) = length R
          \<and> failed_words (check_lexical_adherence [] R) = R
          \<and> adherence (check_lexical_adherence [] R) = (if R = [] then 1 else 0)"
    if "\<forall>w \<in> set R. w \<noteq> []"
  proof -
    from that have "filter (\<lambda>w. w = []) R = []" by (intro filter_none) simp
    moreover from that have "filter (\<lambda>w. w \<noteq> []) R = R" by (intro filter_all) simp
    ultimately show ?thesis
      by (simp add: check_lexical_adherence_def Let_def lower_def)
  qed
  have st: "verify_structural_rules []
      = \<lparr> paragraph_count = 0, long_sentences = 0, structural_adherence = 1 / 2 \<rparr>"
    by (simp add: verify_structural_rules_def paragraphs_of_def strip_def)
  from pw nonempty st show ?thesis by simp
qed

theorem empty_text_scores_witness:
  "passed_count (check_lexical_adherence [] [''river'', ''apple'']) = 0
   \<and> failed_words (check_lexical_adherence [] [''river'', ''apple'']) = [''river'', ''apple'']
   \<and> adherence (check_lexical_adherence [] [''river'', ''apple'']) = 0"
  using empty_text_scores [of "[''river'', ''apple'']"] by simp

section \<open>Properties of the tense classifier\<close>

lemma count_from_zero_iff:
  "sub \<noteq> [] \<Longrightarrow> count_from sub s = 0 \<longleftrightarrow> \<not> sublist sub s"
  by (induction sub s rule: count_from.induct) (auto simp: sublist_Cons_right)

lemma count_from_disjoint: "count_from sub s * length sub \<le> length s"
proof (induction sub s rule: count_from.induct)
  case (1 sub)
  show ?case by simp
next
  case (2 sub c cs)
  show ?case
  proof (cases "sub \<noteq> [] \<and> prefix sub (c # cs)")
    case True
    then have "length sub \<le> length (c # cs)" by (intro prefix_length_le) simp
    moreover from True 2
    have "count_from sub (drop (length sub) (c # cs)) * length sub
        \<le> length (c # cs) - length sub"
      by simp
    ultimately show ?thesis using True by (simp add: algebra_simps)
  next
    case False
    with 2 have "count_from sub cs * length sub \<le> length cs" by simp
    with False show ?thesis by auto
  qed
qed

text \<open>
  The two thresholds in whole numbers: the past share is above 0.8 when there are more
  than four past markers for each future marker, and below 0.2 when there are more than
  four future markers for each past marker.
\<close>

lemma ratio_above:
  fixes p f :: nat
  shows "(8 / 10 < (of_nat p / of_nat (p + f) :: rat)) \<longleftrightarrow> (p + f \<noteq> 0 \<and> 4 * f < p)"
proof (cases "p + f = 0")
  case True
  then show ?thesis by simp
next
  case False
  then have "0 < p + f" by simp
  then have pos: "(0::rat) < of_nat (p + f)" by (simp only: of_nat_0_less_iff)
  have "(8 / 10 < (of_nat p / of_nat (p + f) :: rat)) \<longleftrightarrow> (8 * of_nat (p + f) < (10 * of_nat p :: rat))"
    using pos by (simp add: field_simps)
  also have "\<dots> \<longleftrightarrow> (of_nat (8 * (p + f)) < (of_nat (10 * p) :: rat))"
    by (simp only: of_nat_mult of_nat_numeral)
  also have "\<dots> \<longleftrightarrow> 8 * (p + f) < 10 * p"
    by (simp only: of_nat_less_iff)
  also have "\<dots> \<longleftrightarrow> 4 * f < p" by arith
  finally show ?thesis using False by simp
qed

lemma ratio_below:
  fixes p f :: nat
  shows "p + f \<noteq> 0 \<Longrightarrow> ((of_nat p / of_nat (p + f) :: rat) < 2 / 10) \<longleftrightarrow> 4 * p < f"
proof -
  assume "p + f \<noteq> 0"
  then have "0 < p + f" by simp
  then have pos: "(0::rat) < of_nat (p + f)" by (simp only: of_nat_0_less_iff)
  have "((of_nat p / of_nat (p + f) :: rat) < 2 / 10) \<longleftrightarrow> ((10 * of_nat p :: rat) < 2 * of_nat (p + f))"
    using pos by (simp add: field_simps)
  also have "\<dots> \<longleftrightarrow> ((of_nat (10 * p) :: rat) < of_nat (2 * (p + f)))"
    by (simp only: of_nat_mult of_nat_numeral)
  also have "\<dots> \<longleftrightarrow> 10 * p < 2 * (p + f)"
    by (simp only: of_nat_less_iff)
  also have "\<dots> \<longleftrightarrow> 4 * p < f" by arith
  finally show ?thesis .
qed

text \<open>
  Claim C7. For every text \<open>T\<close>, \<open>analyze_tense_resolution\<close> adds up, over the eight past
  markers and over the four future markers, the number of occurrences of the marker in the
  lowercase text (those that do not overlap, as \<open>str.count\<close> finds them), and answers
  \<open>no_clear_tense\<close> when both sums are 0, \<open>followed_past_tense\<close> when the past sum over
  the total is above 0.8 (more than four past markers for each future one),
  \<open>followed_future_tense\<close> when it is below 0.2 (more than four future markers for each
  past one), and \<open>mixed_or_ignored\<close> otherwise. Nine past markers and one future marker
  give \<open>followed_past_tense\<close>; five and five give \<open>mixed_or_ignored\<close>. On texts: markers
  count whatever their case (\<open>WAS\<close>, \<open>Had\<close>), and inside longer words (\<open>wash\<close>); four
  past markers against one future marker are a share of exactly 0.8 and so mixed, as are
  one against four; two occurrences that overlap count once.
\<close>

theorem analyze_tense_resolution_classes:
  "count_past T
     = (\<Sum>word\<leftarrow>[''was'', ''were'', ''had'', ''did'', ''went'', ''saw'', ''thought'', ''said''].
          str_count (lower T) word)
   \<and> count_future T
     = (\<Sum>word\<leftarrow>[''will'', ''shall'', ''going to'', ''would be'']. str_count (lower T) word)
   \<and> resolution (analyze_tense_resolution T)
     = (if count_past T = 0 \<and> count_future T = 0 then ''no_clear_tense''
        else if of_nat (count_past T) / of_nat (count_past T + count_future T) > (8 / 10 :: rat)
        then ''followed_past_tense''
        else if of_nat (count_past T) / of_nat (count_past T + count_future T) < (2 / 10 :: rat)
        then ''followed_future_tense''
        else ''mixed_or_ignored'')
   \<and> (count_past T = 9 \<and> count_future T = 1
        \<longrightarrow> resolution (analyze_tense_resolution T) = ''followed_past_tense'')
   \<and> (count_past T = 5 \<and> count_future T = 5
        \<longrightarrow> resolution (analyze_tense_resolution T) = ''mixed_or_ignored'')
   \<and> (resolution (analyze_tense_resolution T) = ''no_clear_tense'')
     = (count_past T = 0 \<and> count_future T = 0)
   \<and> (resolution (analyze_tense_resolution T) = ''followed_past_tense'')
     = (4 * count_future T < count_past T)
   \<and> (resolution (analyze_tense_resolution T) = ''followed_future_tense'')
     = (4 * count_past T < count_future T)
   \<and> analyze_tense_resolution ''It WAS cold. We Had tea. She DID go.''
     = \<lparr> resolution = ''followed_past_tense'', past_count = 3, future_count = 0 \<rparr>
   \<and> analyze_tense_resolution
        ''I WILL go. We Shall see. It is Going To rain. That Would Be nice. You will. He was here.''
     = \<lparr> resolution = ''followed_future_tense'', past_count = 1, future_count = 5 \<rparr>
   \<and> analyze_tense_resolution ''The cat sits on a mat.''
     = \<lparr> resolution = ''no_clear_tense'', past_count = 0, future_count = 0 \<rparr>
   \<and> analyze_tense_resolution ''was was was was will''
     = \<lparr> resolution = ''mixed_or_ignored'', past_count = 4, future_count = 1 \<rparr>
   \<and> analyze_tense_resolution ''was will will will will''
     = \<lparr> resolution = ''mixed_or_ignored'', past_count = 1, future_count = 4 \<rparr>
   \<and> analyze_tense_resolution ''They WASH and reward.''
     = \<lparr> resolution = ''followed_past_tense'', past_count = 1, future_count = 0 \<rparr>
   \<and> analyze_tense_resolution ''dididid''
     = \<lparr> resolution = ''followed_past_tense'', past_count = 2, future_count = 0 \<rparr>"
proof -
  let ?p = "count_past T" and ?f = "count_future T"
  have p: "count_past T
     = (\<Sum>word\<leftarrow>[''was'', ''were'', ''had'', ''did'', ''went'', ''saw'', ''thought'', ''said''].
          str_count (lower T) word)"
    by (simp only: count_past_def past_indicators_def)
  have f: "count_future T
     = (\<Sum>word\<leftarrow>[''will'', ''shall'', ''going to'', ''would be'']. str_count (lower T) word)"
    by (simp only: count_future_def future_indicators_def)
  have r: "resolution (analyze_tense_resolution T)
     = (if count_past T = 0 \<and> count_future T = 0 then ''no_clear_tense''
        else if of_nat (count_past T) / of_nat (count_past T + count_future T) > (8 / 10 :: rat)
        then ''followed_past_tense''
        else if of_nat (count_past T) / of_nat (count_past T + count_future T) < (2 / 10 :: rat)
        then ''followed_future_tense''
        else ''mixed_or_ignored'')"
    by (simp add: analyze_tense_resolution_def Let_def)
  have nine: "count_past T = 9 \<and> count_future T = 1
        \<longrightarrow> resolution (analyze_tense_resolution T) = ''followed_past_tense''"
    unfolding r by simp
  have five: "count_past T = 5 \<and> count_future T = 5
        \<longrightarrow> resolution (analyze_tense_resolution T) = ''mixed_or_ignored''"
    unfolding r by simp
  have r': "resolution (analyze_tense_resolution T)
     = (if ?p = 0 \<and> ?f = 0 then ''no_clear_tense''
        else if 4 * ?f < ?p then ''followed_past_tense''
        else if 4 * ?p < ?f then ''followed_future_tense''
        else ''mixed_or_ignored'')"
  proof (cases "?p + ?f = 0")
    case True
    then show ?thesis unfolding r by simp
  next
    case False
    then have "\<not> (?p = 0 \<and> ?f = 0)" by simp
    moreover from False
    have "(8 / 10 < (of_nat ?p / of_nat (?p + ?f) :: rat)) = (4 * ?f < ?p)"
      by (simp only: ratio_above) simp
    moreover from False
    have "((of_nat ?p / of_nat (?p + ?f) :: rat) < 2 / 10) = (4 * ?p < ?f)"
      by (rule ratio_below)
    ultimately show ?thesis unfolding r by (simp only: if_False)
  qed
  have none: "(resolution (analyze_tense_resolution T) = ''no_clear_tense'')
     = (count_past T = 0 \<and> count_future T = 0)"
    unfolding r' by (auto simp del: String.char.inject list.inject)
  have past: "(resolution (analyze_tense_resolution T) = ''followed_past_tense'')
     = (4 * count_future T < count_past T)"
    unfolding r' by auto
  have future: "(resolution (analyze_tense_resolution T) = ''followed_future_tense'')
     = (4 * count_past T < count_future T)"
    unfolding r' by auto
  have upper: "analyze_tense_resolution ''It WAS cold. We Had tea. She DID go.''
     = \<lparr> resolution = ''followed_past_tense'', past_count = 3, future_count = 0 \<rparr>"
    by code_simp
  have fut: "analyze_tense_resolution
        ''I WILL go. We Shall see. It is Going To rain. That Would Be nice. You will. He was here.''
     = \<lparr> resolution = ''followed_future_tense'', past_count = 1, future_count = 5 \<rparr>"
    by code_simp
  have clear: "analyze_tense_resolution ''The cat sits on a mat.''
     = \<lparr> resolution = ''no_clear_tense'', past_count = 0, future_count = 0 \<rparr>"
    by code_simp
  have four_one: "analyze_tense_resolution ''was was was was will''
     = \<lparr> resolution = ''mixed_or_ignored'', past_count = 4, future_count = 1 \<rparr>"
    by code_simp
  have one_four: "analyze_tense_resolution ''was will will will will''
     = \<lparr> resolution = ''mixed_or_ignored'', past_count = 1, future_count = 4 \<rparr>"
    by code_simp
  have wash: "analyze_tense_resolution ''They WASH and reward.''
     = \<lparr> resolution = ''followed_past_tense'', past_count = 1, future_count = 0 \<rparr>"
    by code_simp
  have overlap: "analyze_tense_resolution ''dididid''
     = \<lparr> resolution = ''followed_past_tense'', past_count = 2, future_count = 0 \<rparr>"
    by code_simp
  show ?thesis
    by (intro conjI p f r nine five none past future upper fut clear four_one one_four wash
        overlap)
qed

theorem analyze_tense_resolution_witness:
  "resolution (analyze_tense_resolution
      ''I WAS, he Was, we WERE, it Had, she DID, you Went. I SAW, he Thought, she SAID it WILL.'')
     = ''followed_past_tense''
   \<and> resolution (analyze_tense_resolution
      ''It Was, it HAD, it did, she WENT, she Saw. We WILL, we Shall, we Will, I will, you WILL.'')
     = ''mixed_or_ignored''"
proof -
  let ?nine = "''I WAS, he Was, we WERE, it Had, she DID, you Went. I SAW, he Thought, she SAID it WILL.''"
  let ?five = "''It Was, it HAD, it did, she WENT, she Saw. We WILL, we Shall, we Will, I will, you WILL.''"
  have nine: "count_past ?nine = 9 \<and> count_future ?nine = 1"
    by code_simp
  have five: "count_past ?five = 5 \<and> count_future ?five = 5"
    by code_simp
  have past: "count_past T = 9 \<and> count_future T = 1
        \<longrightarrow> resolution (analyze_tense_resolution T) = ''followed_past_tense''" for T
    using analyze_tense_resolution_classes [of T] by (elim conjE) assumption
  have mixed: "count_past T = 5 \<and> count_future T = 5
        \<longrightarrow> resolution (analyze_tense_resolution T) = ''mixed_or_ignored''" for T
    using analyze_tense_resolution_classes [of T] by (elim conjE) assumption
  from nine past [of ?nine]
  have 1: "resolution (analyze_tense_resolution ?nine) = ''followed_past_tense''"
    by (rule rev_mp)
  from five mixed [of ?five]
  have 2: "resolution (analyze_tense_resolution ?five) = ''mixed_or_ignored''"
    by (rule rev_mp)
  show ?thesis by (intro conjI 1 2)
qed

section \<open>Properties of the result sink\<close>

lemma write_fresh:
  "files p = None \<Longrightarrow> dir_exists dirs (parent p) \<Longrightarrow>
   write_results_to_csv dirs files p e t m d = Inr (files(p \<mapsto> [header_row, data_row e t m d]))"
  by (simp add: write_results_to_csv_def)

lemma write_existing:
  "files p = Some rows \<Longrightarrow>
   write_results_to_csv dirs files p e t m d = Inr (files(p \<mapsto> rows @ [data_row e t m d]))"
  by (simp add: write_results_to_csv_def)

lemma write_no_directory:
  "files p = None \<Longrightarrow> \<not> dir_exists dirs (parent p) \<Longrightarrow>
   write_results_to_csv dirs files p e t m d = Inl FileNotFoundError"
  by (simp add: write_results_to_csv_def)

lemma row_of_call_tuple: "row_of_call (e, t, m, d) = data_row e t m d"
  by (simp add: row_of_call_def)

lemma write_all_existing:
  "files p = Some rows \<Longrightarrow>
   write_all dirs files p calls = Inr (files(p \<mapsto> rows @ map row_of_call calls))"
proof (induction calls arbitrary: files rows)
  case Nil
  then have "files(p \<mapsto> rows) = files" by (simp add: fun_upd_idem)
  then show ?case by simp
next
  case (Cons call calls)
  obtain e t m d where call: "call = (e, t, m, d)" by (cases call) auto
  let ?files = "files(p \<mapsto> rows @ [data_row e t m d])"
  from Cons.prems have step: "write_results_to_csv dirs files p e t m d = Inr ?files"
    by (rule write_existing)
  have "?files p = Some (rows @ [data_row e t m d])" by simp
  then have rest: "write_all dirs ?files p calls
      = Inr (?files(p \<mapsto> (rows @ [data_row e t m d]) @ map row_of_call calls))"
    by (rule Cons.IH)
  have "write_all dirs files p (call # calls) = write_all dirs ?files p calls"
    by (simp add: call step)
  also note rest
  also have "?files(p \<mapsto> (rows @ [data_row e t m d]) @ map row_of_call calls)
      = files(p \<mapsto> rows @ map row_of_call (call # calls))"
    by (simp add: call row_of_call_tuple)
  finally show ?case .
qed

lemma write_all_fresh:
  assumes "files p = None" and "dir_exists dirs (parent p)" and "calls \<noteq> []"
  shows "write_all dirs files p calls = Inr (files(p \<mapsto> header_row # map row_of_call calls))"
proof -
  from assms(3) obtain e t m d rest where calls: "calls = (e, t, m, d) # rest"
    by (cases calls) auto
  let ?files = "files(p \<mapsto> [header_row, data_row e t m d])"
  from assms(1,2) have step: "write_results_to_csv dirs files p e t m d = Inr ?files"
    by (rule write_fresh)
  have "?files p = Some [header_row, data_row e t m d]" by simp
  then have rest: "write_all dirs ?files p rest
      = Inr (?files(p \<mapsto> [header_row, data_row e t m d] @ map row_of_call rest))"
    by (rule write_all_existing)
  have "write_all dirs files p calls = write_all dirs ?files p rest"
    by (simp add: calls step)
  also note rest
  also have "?files(p \<mapsto> [header_row, data_row e t m d] @ map row_of_call rest)
      = files(p \<mapsto> header_row # map row_of_call calls)"
    by (simp add: calls row_of_call_tuple)
  finally show ?thesis .
qed

lemma data_row_not_header: "data_row e t m d \<noteq> header_row"
  by (simp add: data_row_def header_row_def fieldnames_def)

lemma row_of_call_not_header: "row_of_call call \<noteq> header_row"
  by (cases call) (simp add: row_of_call_tuple data_row_not_header)

lemma count_header_rows: "count_list (map row_of_call calls) header_row = 0"
  by (induction calls) (simp_all add: row_of_call_not_header)

lemma parent_of_result_file: "parent (OUTPUT_DIR @ CHR ''/'' # name) = OUTPUT_DIR"
  if "CHR ''/'' \<notin> set name"
proof -
  from that have "dropWhile (\<lambda>c. c \<noteq> CHR ''/'') (rev name @ CHR ''/'' # rev OUTPUT_DIR)
      = CHR ''/'' # rev OUTPUT_DIR"
    by (simp add: dropWhile_append)
  then show ?thesis by (simp add: parent_def OUTPUT_DIR_def)
qed

lemma output_dir_exists: "dir_exists dirs OUTPUT_DIR"
  by (simp add: dir_exists_def)

text \<open>
  Claim C8. For every path and every sequence of calls of \<open>write_results_to_csv\<close> on it:
  a call that finds no file creates it (its directory being there) and writes the header
  row and then its data row; a call that finds the file writes its data row behind the
  rows that are there, and no header; files at other paths stay as they are. So two calls
  that start from a path with no file leave the header row followed by the two data rows,
  and any number of calls (at least one) leave the header row followed by one data row for
  each call, in the order of the calls. A data row is never equal to the header row (its
  second cell is a number), so the header row is there exactly once. Where the file is
  missing and its directory too, the call raises \<open>FileNotFoundError\<close> and writes nothing;
  this cannot happen in \<open>outputs\<close>, where the result files of the experiments are.
\<close>

theorem write_results_header_once:
  "(files p = None \<and> dir_exists dirs (parent p)
      \<longrightarrow> write_results_to_csv dirs files p e t m d
          = Inr (files(p \<mapsto> [header_row, data_row e t m d])))
   \<and> (files p = Some rows
      \<longrightarrow> write_results_to_csv dirs files p e t m d
          = Inr (files(p \<mapsto> rows @ [data_row e t m d])))
   \<and> (files p = None \<and> \<not> dir_exists dirs (parent p)
      \<longrightarrow> write_results_to_csv dirs files p e t m d = Inl FileNotFoundError)
   \<and> (files p = None \<and> dir_exists dirs (parent p)
      \<longrightarrow> (\<exists>files'. write_results_to_csv dirs files p e t m d = Inr files'
            \<and> write_results_to_csv dirs files' p e' t' m' d'
              = Inr (files(p \<mapsto> [header_row, data_row e t m d, data_row e' t' m' d']))))
   \<and> (files p = None \<and> dir_exists dirs (parent p) \<and> calls \<noteq> []
      \<longrightarrow> write_all dirs files p calls = Inr (files(p \<mapsto> header_row # map row_of_call calls))
        \<and> count_list (header_row # map row_of_call calls) header_row = 1)
   \<and> data_row e t m d \<noteq> header_row
   \<and> (CHR ''/'' \<notin> set name \<longrightarrow> dir_exists dirs (parent (''outputs/'' @ name)))"
proof (intro conjI impI)
  show "write_results_to_csv dirs files p e t m d
          = Inr (files(p \<mapsto> [header_row, data_row e t m d]))"
    if "files p = None \<and> dir_exists dirs (parent p)"
    using that by (simp add: write_fresh)
  show "write_results_to_csv dirs files p e t m d
          = Inr (files(p \<mapsto> rows @ [data_row e t m d]))"
    if "files p = Some rows"
    using that by (rule write_existing)
  show "write_results_to_csv dirs files p e t m d = Inl FileNotFoundError"
    if "files p = None \<and> \<not> dir_exists dirs (parent p)"
    using that by (simp add: write_no_directory)
  show "\<exists>files'. write_results_to_csv dirs files p e t m d = Inr files'
            \<and> write_results_to_csv dirs files' p e' t' m' d'
              = Inr (files(p \<mapsto> [header_row, data_row e t m d, data_row e' t' m' d']))"
    if "files p = None \<and> dir_exists dirs (parent p)"
  proof -
    let ?files = "files(p \<mapsto> [header_row, data_row e t m d])"
    from that have "write_results_to_csv dirs files p e t m d = Inr ?files"
      by (simp add: write_fresh)
    moreover have "?files p = Some [header_row, data_row e t m d]" by simp
    then have "write_results_to_csv dirs ?files p e' t' m' d'
        = Inr (?files(p \<mapsto> [header_row, data_row e t m d] @ [data_row e' t' m' d']))"
      by (rule write_existing)
    ultimately show ?thesis by simp
  qed
  show "write_all dirs files p calls = Inr (files(p \<mapsto> header_row # map row_of_call calls))"
    if "files p = None \<and> dir_exists dirs (parent p) \<and> calls \<noteq> []"
    using that by (simp add: write_all_fresh)
  show "count_list (header_row # map row_of_call calls) header_row = 1"
    if "files p = None \<and> dir_exists dirs (parent p) \<and> calls \<noteq> []"
    by (simp add: count_header_rows)
  show "data_row e t m d \<noteq> header_row"
    by (rule data_row_not_header)
  show "dir_exists dirs (parent (''outputs/'' @ name))" if "CHR ''/'' \<notin> set name"
    using parent_of_result_file [OF that] output_dir_exists [of dirs]
    by (simp add: OUTPUT_DIR_def)
qed

theorem write_results_header_once_witness:
  "(\<exists>files'. write_results_to_csv {} Map.empty ''outputs/experiment_1_fatigue.csv''
         ''fatigue_R5'' 1 ''phi3:3.8b'' [''R'' \<mapsto> PInt 5, ''adherence'' \<mapsto> PFloat (3 / 5)]
       = Inr files'
     \<and> (\<exists>files''. write_results_to_csv {} files' ''outputs/experiment_1_fatigue.csv''
            ''fatigue_R5'' 2 ''phi3:3.8b'' [''R'' \<mapsto> PInt 5, ''adherence'' \<mapsto> PFloat 1]
          = Inr files''
        \<and> files'' ''outputs/experiment_1_fatigue.csv''
          = Some [map PStr [''experiment_name'', ''trial'', ''model'', ''R'', ''passed'',
                            ''failed'', ''adherence'', ''prompt_len'', ''details''],
                  [PStr ''fatigue_R5'', PInt 1, PStr ''phi3:3.8b'', PInt 5, PInt 0, PInt 0,
                   PFloat (3 / 5), PInt 0, PStr []],
                  [PStr ''fatigue_R5'', PInt 2, PStr ''phi3:3.8b'', PInt 5, PInt 0, PInt 0,
                   PFloat 1, PInt 0, PStr []]]))
   \<and> write_results_to_csv {} Map.empty ''results/run.csv''
         ''fatigue_R5'' 1 ''phi3:3.8b'' [''R'' \<mapsto> PInt 5] = Inl FileNotFoundError
   \<and> (\<exists>files'. write_results_to_csv {''results''} Map.empty ''results/run.csv''
         ''fatigue_R5'' 1 ''phi3:3.8b'' [''R'' \<mapsto> PInt 5] = Inr files'
       \<and> files' ''results/run.csv''
         = Some [header_row, [PStr ''fatigue_R5'', PInt 1, PStr ''phi3:3.8b'', PInt 5, PInt 0,
                              PInt 0, PFloat 0, PInt 0, PStr []]])
   \<and> (\<exists>files'. write_results_to_csv {} [''run.csv'' \<mapsto> [header_row]] ''run.csv''
         ''fatigue_R5'' 7 ''phi3:3.8b'' [''R'' \<mapsto> PInt 5] = Inr files'
       \<and> files' ''run.csv''
         = Some [header_row, [PStr ''fatigue_R5'', PInt 7, PStr ''phi3:3.8b'', PInt 5, PInt 0,
                              PInt 0, PFloat 0, PInt 0, PStr []]])
   \<and> (\<exists>files'. write_all {} Map.empty ''outputs/experiment_1_fatigue.csv''
         [(''fatigue_R5'', 1, ''phi3:3.8b'', [''R'' \<mapsto> PInt 5]),
          (''fatigue_R5'', 2, ''phi3:3.8b'', [''R'' \<mapsto> PInt 5]),
          (''fatigue_R5'', 3, ''phi3:3.8b'', [''R'' \<mapsto> PInt 5])] = Inr files'
       \<and> map (\<lambda>row. row ! 1) (the (files' ''outputs/experiment_1_fatigue.csv''))
         = [PStr ''trial'', PInt 1, PInt 2, PInt 3])"
proof -
  let ?p = "''outputs/experiment_1_fatigue.csv''"
  let ?q = "''results/run.csv''"
  let ?d1 = "[''R'' \<mapsto> PInt 5, ''adherence'' \<mapsto> PFloat (3 / 5)]"
  let ?d2 = "[''R'' \<mapsto> PInt 5, ''adherence'' \<mapsto> PFloat 1]"
  let ?d = "[''R'' \<mapsto> PInt 5]"
  let ?calls = "[(''fatigue_R5'', 1, ''phi3:3.8b'', ?d),
          (''fatigue_R5'', 2, ''phi3:3.8b'', ?d),
          (''fatigue_R5'', 3, ''phi3:3.8b'', ?d)]"
  have fresh: "Map.empty ?p = None" "Map.empty ?q = None" by simp_all
  have pp: "parent ?p = ''outputs''" by code_simp
  have pq: "parent ?q = ''results''" by code_simp
  have here: "dir_exists {} (parent ?p)" by (simp add: pp dir_exists_def OUTPUT_DIR_def)
  have missing: "\<not> dir_exists {} (parent ?q)" by (simp add: pq dir_exists_def OUTPUT_DIR_def)
  have there: "dir_exists {''results''} (parent ?q)" by (simp add: pq dir_exists_def)
  have some: "?calls \<noteq> []" by simp
  have rows: "data_row ''fatigue_R5'' 1 ''phi3:3.8b'' ?d1
        = [PStr ''fatigue_R5'', PInt 1, PStr ''phi3:3.8b'', PInt 5, PInt 0, PInt 0,
           PFloat (3 / 5), PInt 0, PStr []]"
      "data_row ''fatigue_R5'' 2 ''phi3:3.8b'' ?d2
        = [PStr ''fatigue_R5'', PInt 2, PStr ''phi3:3.8b'', PInt 5, PInt 0, PInt 0,
           PFloat 1, PInt 0, PStr []]"
      "data_row ''fatigue_R5'' t ''phi3:3.8b'' ?d
        = [PStr ''fatigue_R5'', PInt t, PStr ''phi3:3.8b'', PInt 5, PInt 0, PInt 0,
           PFloat 0, PInt 0, PStr []]" for t
    by (simp_all add: data_row_def dict_get_def)
  have header: "header_row = map PStr [''experiment_name'', ''trial'', ''model'', ''R'', ''passed'',
                            ''failed'', ''adherence'', ''prompt_len'', ''details'']"
    by (simp add: header_row_def fieldnames_def)
  note two = write_results_header_once
    [where files = Map.empty and p = ?p and dirs = "{}" and e = "''fatigue_R5''" and t = 1
       and m = "''phi3:3.8b''" and d = ?d1 and e' = "''fatigue_R5''" and t' = 2
       and m' = "''phi3:3.8b''" and d' = ?d2 and calls = ?calls and rows = "[]"]
  from two fresh(1) here
  have "\<exists>files'. write_results_to_csv {} Map.empty ?p ''fatigue_R5'' 1 ''phi3:3.8b'' ?d1
        = Inr files'
      \<and> write_results_to_csv {} files' ?p ''fatigue_R5'' 2 ''phi3:3.8b'' ?d2
        = Inr (Map.empty(?p \<mapsto> [header_row, data_row ''fatigue_R5'' 1 ''phi3:3.8b'' ?d1,
                 data_row ''fatigue_R5'' 2 ''phi3:3.8b'' ?d2]))"
    by blast
  then have 1: "\<exists>files'. write_results_to_csv {} Map.empty ?p ''fatigue_R5'' 1 ''phi3:3.8b'' ?d1
       = Inr files'
     \<and> (\<exists>files''. write_results_to_csv {} files' ?p ''fatigue_R5'' 2 ''phi3:3.8b'' ?d2
          = Inr files''
        \<and> files'' ?p
          = Some [map PStr [''experiment_name'', ''trial'', ''model'', ''R'', ''passed'',
                            ''failed'', ''adherence'', ''prompt_len'', ''details''],
                  [PStr ''fatigue_R5'', PInt 1, PStr ''phi3:3.8b'', PInt 5, PInt 0, PInt 0,
                   PFloat (3 / 5), PInt 0, PStr []],
                  [PStr ''fatigue_R5'', PInt 2, PStr ''phi3:3.8b'', PInt 5, PInt 0, PInt 0,
                   PFloat 1, PInt 0, PStr []]])"
    unfolding rows header by auto
  from two fresh(1) here some
  have "write_all {} Map.empty ?p ?calls = Inr (Map.empty(?p \<mapsto> header_row # map row_of_call ?calls))"
    by blast
  then have 5: "\<exists>files'. write_all {} Map.empty ?p ?calls = Inr files'
       \<and> map (\<lambda>row. row ! 1) (the (files' ?p)) = [PStr ''trial'', PInt 1, PInt 2, PInt 3]"
    by (simp add: row_of_call_tuple rows header)
  note no_dir = write_results_header_once
    [where files = Map.empty and p = ?q and dirs = "{}" and e = "''fatigue_R5''" and t = 1
       and m = "''phi3:3.8b''" and d = ?d]
  from no_dir fresh(2) missing
  have 2: "write_results_to_csv {} Map.empty ?q ''fatigue_R5'' 1 ''phi3:3.8b'' ?d
      = Inl FileNotFoundError"
    by blast
  note with_dir = write_results_header_once
    [where files = Map.empty and p = ?q and dirs = "{''results''}" and e = "''fatigue_R5''"
       and t = 1 and m = "''phi3:3.8b''" and d = ?d]
  from with_dir fresh(2) there
  have "write_results_to_csv {''results''} Map.empty ?q ''fatigue_R5'' 1 ''phi3:3.8b'' ?d
      = Inr (Map.empty(?q \<mapsto> [header_row, data_row ''fatigue_R5'' 1 ''phi3:3.8b'' ?d]))"
    by blast
  then have 3: "\<exists>files'. write_results_to_csv {''results''} Map.empty ?q
         ''fatigue_R5'' 1 ''phi3:3.8b'' ?d = Inr files'
       \<and> files' ?q
         = Some [header_row, [PStr ''fatigue_R5'', PInt 1, PStr ''phi3:3.8b'', PInt 5, PInt 0,
                              PInt 0, PFloat 0, PInt 0, PStr []]]"
    by (simp add: rows)
  note existing = write_results_header_once
    [where files = "[''run.csv'' \<mapsto> [header_row]]" and p = "''run.csv''" and dirs = "{}"
       and e = "''fatigue_R5''" and t = 7 and m = "''phi3:3.8b''" and d = ?d
       and rows = "[header_row]"]
  have "[''run.csv'' \<mapsto> [header_row]] ''run.csv'' = Some [header_row]" by simp
  with existing
  have "write_results_to_csv {} [''run.csv'' \<mapsto> [header_row]] ''run.csv''
         ''fatigue_R5'' 7 ''phi3:3.8b'' ?d
      = Inr ([''run.csv'' \<mapsto> [header_row]]
               (''run.csv'' \<mapsto> [header_row] @ [data_row ''fatigue_R5'' 7 ''phi3:3.8b'' ?d]))"
    by blast
  then have 4: "\<exists>files'. write_results_to_csv {} [''run.csv'' \<mapsto> [header_row]] ''run.csv''
         ''fatigue_R5'' 7 ''phi3:3.8b'' ?d = Inr files'
       \<and> files' ''run.csv''
         = Some [header_row, [PStr ''fatigue_R5'', PInt 7, PStr ''phi3:3.8b'', PInt 5, PInt 0,
                              PInt 0, PFloat 0, PInt 0, PStr []]]"
    by (simp add: rows)
  show ?thesis by (intro conjI 1 2 3 4 5)
qed

section \<open>Properties of the model of doubles\<close>

text \<open>
  \<open>bit_length\<close> and \<open>floor_log2\<close> find the binade of a positive number; a number with a
  53-bit significand and an exponent in the normal range is a double, that is, it is its
  own rounding; the rounding of a number of the normal range is such a double; halving a
  double is exact as long as the half stays in the normal range.
\<close>

lemma bit_length_pos: "0 < n \<Longrightarrow> 0 < bit_length n"
  by (subst bit_length.simps) simp

lemma bit_length_bounds: "0 < n \<Longrightarrow> 2 ^ (bit_length n - 1) \<le> n \<and> n < 2 ^ bit_length n"
proof (induction n rule: bit_length.induct)
  case (1 n)
  show ?case
  proof (cases "n div 2 = 0")
    case True
    with "1.prems" have "n = 1" by (simp add: div_eq_0_iff) 
    then show ?thesis by (simp add: bit_length.simps [of "Suc 0"] bit_length.simps [of 0])
  next
    case False
    let ?b = "bit_length (n div 2)"
    from False "1.prems" have IH: "2 ^ (?b - 1) \<le> n div 2 \<and> n div 2 < 2 ^ ?b"
      by (intro "1.IH") simp_all
    from False have b: "0 < ?b" by (intro bit_length_pos) simp
    from "1.prems" have bl: "bit_length n = Suc ?b" by (simp add: bit_length.simps [of n])
    from b have "(2::nat) ^ ?b = 2 * 2 ^ (?b - 1)" by (cases ?b) simp_all
    with IH have "2 ^ ?b \<le> 2 * (n div 2)" by simp
    also have "2 * (n div 2) \<le> n" by simp
    finally have lo: "2 ^ ?b \<le> n" .
    from IH have "n div 2 + 1 \<le> 2 ^ ?b" by simp
    then have "2 * (n div 2) + 2 \<le> 2 * 2 ^ ?b" by simp
    moreover have "n < 2 * (n div 2) + 2" by presburger
    ultimately have hi: "n < 2 ^ Suc ?b" by simp
    from lo hi show ?thesis by (simp add: bl)
  qed
qed

lemma floor_log2_bounds:
  assumes "0 < x"
  shows "2 powi (floor_log2 x) \<le> x \<and> x < 2 powi (floor_log2 x + 1)"
proof (cases "1 \<le> x")
  case True
  let ?n = "nat \<lfloor>x\<rfloor>"
  from True have n: "0 < ?n" by simp
  from True have fl: "floor_log2 x = int (bit_length ?n) - 1" by (simp add: floor_log2_def)
  from bit_length_bounds [OF n] have b: "2 ^ (bit_length ?n - 1) \<le> ?n" "?n < 2 ^ bit_length ?n"
    by simp_all
  from bit_length_pos [OF n] have e: "int (bit_length ?n) - 1 = int (bit_length ?n - 1)" by simp
  have "(2::rat) powi (floor_log2 x) = 2 ^ (bit_length ?n - 1)"
    by (simp only: fl e power_int_of_nat)
  also have "\<dots> = of_nat (2 ^ (bit_length ?n - 1))" by simp
  also have "\<dots> \<le> of_nat ?n" using b(1) by (simp only: of_nat_le_iff)
  also have "\<dots> = of_int \<lfloor>x\<rfloor>" using True by simp
  also have "\<dots> \<le> x" by simp
  finally have lo: "2 powi (floor_log2 x) \<le> x" .
  from b(2) have "?n + 1 \<le> 2 ^ bit_length ?n" by (simp only: Suc_eq_plus1 [symmetric] Suc_le_eq)
  then have "(of_nat (?n + 1) :: rat) \<le> of_nat (2 ^ bit_length ?n)" by (simp only: of_nat_le_iff)
  then have "of_int \<lfloor>x\<rfloor> + 1 \<le> (2::rat) ^ bit_length ?n" using True by simp
  moreover have "x < of_int \<lfloor>x\<rfloor> + 1" by linarith
  ultimately have "x < (2::rat) ^ bit_length ?n" by simp
  moreover have "(2::rat) powi (floor_log2 x + 1) = 2 ^ bit_length ?n"
    by (simp add: fl)
  ultimately have hi: "x < 2 powi (floor_log2 x + 1)" by simp
  from lo hi show ?thesis ..
next
  case False
  define m where "m = \<lceil>1 / x\<rceil>"
  define n where "n = nat (m - 1)"
  define k where "k = bit_length n"
  from False assms have x1: "x < 1" by simp
  with assms have y: "1 < 1 / x" by simp
  then have m: "2 \<le> m" unfolding m_def by (simp add: le_ceiling_iff)
  then have n: "0 < n" unfolding n_def by simp
  from m have nm: "(of_nat n :: rat) = of_int m - 1" unfolding n_def by simp
  have up: "1 / x \<le> of_int m" unfolding m_def by simp
  have dn: "of_int m - 1 < 1 / x" unfolding m_def by linarith
  from False have fl: "floor_log2 x = - int k"
    by (simp add: floor_log2_def k_def n_def m_def)
  from bit_length_bounds [OF n] have b: "2 ^ (k - 1) \<le> n" "n < 2 ^ k"
    unfolding k_def by simp_all
  from bit_length_pos [OF n] have k: "0 < k" unfolding k_def .
  from b(2) have "n + 1 \<le> 2 ^ k" by simp
  then have "(of_nat (n + 1) :: rat) \<le> of_nat (2 ^ k)" by (simp only: of_nat_le_iff)
  then have "(of_int m :: rat) \<le> 2 ^ k" using nm by simp
  with up have "1 / x \<le> 2 ^ k" by (rule order_trans)
  with assms have "1 \<le> 2 ^ k * x" by (simp add: field_simps)
  then have "1 / 2 ^ k \<le> x" by (simp add: field_simps)
  then have lo: "2 powi (floor_log2 x) \<le> x"
    by (simp add: fl power_int_minus_divide)
  from b(1) have "(of_nat (2 ^ (k - 1)) :: rat) \<le> of_nat n" by (simp only: of_nat_le_iff)
  then have "(2::rat) ^ (k - 1) \<le> of_int m - 1" using nm by simp
  then have "(2::rat) ^ (k - 1) < 1 / x" using dn by (rule le_less_trans)
  with assms have "2 ^ (k - 1) * x < 1" by (simp add: field_simps)
  then have "x < 1 / 2 ^ (k - 1)" by (simp add: field_simps)
  moreover from k have "floor_log2 x + 1 = - int (k - 1)" by (simp add: fl)
  ultimately have hi: "x < 2 powi (floor_log2 x + 1)"
    by (simp only: power_int_minus_divide power_int_of_nat)
  from lo hi show ?thesis ..
qed

lemma powi_two_mono: "a \<le> b \<Longrightarrow> (2::rat) powi a \<le> 2 powi b"
  by (rule power_int_increasing) simp_all

lemma floor_log2_unique:
  assumes "2 powi e \<le> x" and "x < 2 powi (e + 1)"
  shows "floor_log2 x = e"
proof -
  have "(0::rat) < 2 powi e" by simp
  then have x: "0 < x" using assms(1) by (rule less_le_trans)
  note fb = floor_log2_bounds [OF x]
  have "\<not> floor_log2 x + 1 \<le> e"
  proof
    assume "floor_log2 x + 1 \<le> e"
    then have "(2::rat) powi (floor_log2 x + 1) \<le> 2 powi e" by (rule powi_two_mono)
    with fb assms(1) show False by simp
  qed
  moreover have "\<not> e + 1 \<le> floor_log2 x"
  proof
    assume "e + 1 \<le> floor_log2 x"
    then have "(2::rat) powi (e + 1) \<le> 2 powi (floor_log2 x)" by (rule powi_two_mono)
    with fb assms(2) show False by simp
  qed
  ultimately show ?thesis by simp
qed

lemma round_even_of_int: "round_even (of_int m) = m"
  by (simp add: round_even_def)


lemma powi_two_split: "(2::rat) powi (a + b) = 2 powi a * 2 powi b"
  by (simp add: power_int_add)

lemma powi_two_less_cancel:
  assumes "(2::rat) powi a < 2 powi b"
  shows "a < b"
proof (rule ccontr)
  assume "\<not> a < b"
  then have "b \<le> a" by simp
  then have "(2::rat) powi b \<le> 2 powi a" by (rule powi_two_mono)
  with assms show False by simp
qed

lemma double_of_normal:
  assumes m: "2 ^ 52 \<le> m" "m < 2 ^ 53" and e: "- 1022 \<le> e"
  shows "double_of (of_int m * 2 powi (e - 52)) = of_int m * 2 powi (e - 52)"
proof -
  define u :: rat where "u = 2 powi (e - 52)"
  have u: "0 < u" unfolding u_def by simp
  define x where "x = of_int m * u"
  have e_u: "2 powi e = 2 ^ 52 * u"
    using powi_two_split [of 52 "e - 52"] by (simp add: u_def)
  have e1_u: "2 powi (e + 1) = 2 ^ 53 * u"
    using powi_two_split [of 53 "e - 52"] by (simp add: u_def add.commute [of e 1])
  from m(1) have "(2 ^ 52 :: rat) \<le> of_int m" by (simp only: of_int_le_iff [symmetric, where ?'a = rat] of_int_power of_int_numeral)
  then have lo: "2 powi e \<le> x" unfolding x_def e_u using u by (simp only: mult_le_cancel_right_pos)
  from m(2) have "of_int m < (2 ^ 53 :: rat)" by (simp only: of_int_less_iff [symmetric, where ?'a = rat] of_int_power of_int_numeral)
  then have hi: "x < 2 powi (e + 1)" unfolding x_def e1_u using u by (simp only: mult_less_cancel_right_pos)
  have "(0::rat) < 2 powi e" by simp
  then have pos: "0 < x" using lo by (rule less_le_trans)
  then have ax: "\<bar>x\<bar> = x" by simp
  from lo hi have fl: "floor_log2 x = e" by (rule floor_log2_unique)
  from e have mx: "max e (- 1022) = e" by simp
  from u have q: "x / u = of_int m" unfolding x_def by simp
  from pos have "double_of x = of_int (round_even (x / u)) * u"
    by (simp add: double_of_def ax fl mx u_def Let_def)
  also have "\<dots> = of_int m * u" by (simp only: q round_even_of_int)
  finally show ?thesis unfolding x_def u_def .
qed

lemma round_even_range: "\<lfloor>x\<rfloor> \<le> round_even x \<and> round_even x \<le> \<lfloor>x\<rfloor> + 1"
  by (simp add: round_even_def Let_def)

lemma double_of_is_normal:
  assumes "2 powi (- 1022) \<le> x"
  shows "\<exists>m e. double_of x = of_int m * 2 powi (e - 52)
     \<and> 2 ^ 52 \<le> m \<and> m < 2 ^ 53 \<and> floor_log2 x \<le> e"
proof -
  define e where "e = floor_log2 x"
  define u :: rat where "u = 2 powi (e - 52)"
  have u: "0 < u" unfolding u_def by simp
  have "(0::rat) < 2 powi (- 1022)" by simp
  then have pos: "0 < x" using assms by (rule less_le_trans)
  then have ax: "\<bar>x\<bar> = x" by simp
  from floor_log2_bounds [OF pos] have lo: "2 powi e \<le> x" and hi: "x < 2 powi (e + 1)"
    unfolding e_def by simp_all
  from assms hi have "(2::rat) powi (- 1022) < 2 powi (e + 1)" by (rule le_less_trans)
  then have "- 1022 < e + 1" by (rule powi_two_less_cancel)
  then have mx: "max e (- 1022) = e" by simp
  have e_u: "2 powi e = 2 ^ 52 * u"
    using powi_two_split [of 52 "e - 52"] by (simp add: u_def)
  have e1_u: "2 powi (e + 1) = 2 ^ 53 * u"
    using powi_two_split [of 53 "e - 52"] by (simp add: u_def add.commute [of e 1])
  have e1_u': "2 powi (e + 1 - 52) = 2 * u"
    using powi_two_split [of 1 "e - 52"] by (simp add: u_def)
  define z where "z = x / u"
  from lo u have "2 ^ 52 * u \<le> z * u" unfolding z_def e_u by simp
  with u have zlo: "of_int (2 ^ 52) \<le> z" by (simp only: mult_le_cancel_right_pos of_int_power of_int_numeral)
  from hi u have "z * u < 2 ^ 53 * u" unfolding z_def e1_u by simp
  with u have zhi: "z < of_int (2 ^ 53)" by (simp only: mult_less_cancel_right_pos of_int_power of_int_numeral)
  define r where "r = round_even z"
  from zlo have "2 ^ 52 \<le> \<lfloor>z\<rfloor>" by (simp only: le_floor_iff)
  with round_even_range [of z] have rlo: "2 ^ 52 \<le> r" unfolding r_def by linarith
  from zhi have "\<lfloor>z\<rfloor> < 2 ^ 53" by (simp only: floor_less_iff)
  with round_even_range [of z] have rhi: "r \<le> 2 ^ 53" unfolding r_def by linarith
  from pos have d: "double_of x = of_int r * u"
    by (simp add: double_of_def ax e_def [symmetric] mx u_def Let_def r_def z_def)
  show ?thesis
  proof (cases "r < 2 ^ 53")
    case True
    with d rlo show ?thesis unfolding u_def e_def by blast
  next
    case False
    with rhi have "r = 2 ^ 53" by simp
    with d have "double_of x = of_int (2 ^ 52) * 2 powi (e + 1 - 52)"
      unfolding e1_u' by simp
    moreover have "(2 ^ 52 :: int) \<le> 2 ^ 52" "(2 ^ 52 :: int) < 2 ^ 53" "floor_log2 x \<le> e + 1"
      by (simp_all add: e_def)
    ultimately show ?thesis by blast
  qed
qed

lemma double_of_half:
  assumes "2 powi (- 1021) \<le> x"
  shows "double_of (double_of x / 2) = double_of x / 2"
proof -
  have "(2::rat) powi (- 1022) \<le> 2 powi (- 1021)" by (rule powi_two_mono) simp
  then have x: "2 powi (- 1022) \<le> x" using assms by (rule order_trans)
  have "(0::rat) < 2 powi (- 1021)" by simp
  then have pos: "0 < x" using assms by (rule less_le_trans)
  from double_of_is_normal [OF x] obtain m e
    where d: "double_of x = of_int m * 2 powi (e - 52)"
      and m: "2 ^ 52 \<le> m" "m < 2 ^ 53" and e: "floor_log2 x \<le> e"
    by blast
  from floor_log2_bounds [OF pos] have "x < 2 powi (floor_log2 x + 1)" by simp
  with assms have "(2::rat) powi (- 1021) < 2 powi (floor_log2 x + 1)" by (rule le_less_trans)
  then have "- 1021 < floor_log2 x + 1" by (rule powi_two_less_cancel)
  with e have e': "- 1022 \<le> e - 1" by simp
  have "(2::rat) powi (e - 52) = 2 * 2 powi (e - 1 - 52)"
    using powi_two_split [of 1 "e - 1 - 52"] by simp
  then have h: "double_of x / 2 = of_int m * 2 powi (e - 1 - 52)" unfolding d by simp
  show ?thesis unfolding h using m e' by (rule double_of_normal)
qed
section \<open>Properties of a trial\<close>

lemma str_int_20: "str_int 20 = ''20''"
  by code_simp

lemma str_int_0: "str_int 0 = ''0''"
  by code_simp

lemma str_int_1: "str_int 1 = ''1''"
  by code_simp

lemma failure_text_3: "failure_text 3 = ''ERROR: Failed to generate response after 3 attempts''"
  by (simp add: failure_text_def str_int_3)

lemma lower_failure_text_3:
  "lower ''ERROR: Failed to generate response after 3 attempts''
     = ''error: failed to generate response after 3 attempts''"
  by code_simp

lemma structural_failure_text_3:
  "verify_structural_rules ''ERROR: Failed to generate response after 3 attempts''
     = \<lparr> paragraph_count = 1, long_sentences = 0, structural_adherence = 1 / 2 \<rparr>"
  by code_simp

lemma strip_type_lexical: "strip ''Type: lexical. '' = ''Type: lexical.''"
  by code_simp

lemma call_default_returns_text:
  "\<exists>story. fst (call_ollama_with_retries chat prompt model 3) = Text story"
  unfolding call_ollama_with_retries_def by (rule retry_loop_returns_text) simp

lemma call_default_exhausted:
  assumes "\<forall>attempt. attempt < 3 \<longrightarrow> (\<exists>e. chat model prompt attempt = Fault e)"
  shows "fst (call_ollama_with_retries chat prompt model 3)
     = Text ''ERROR: Failed to generate response after 3 attempts''"
proof -
  from assms have "\<forall>k. int k < 3 \<longrightarrow> (\<exists>e. chat model prompt k = Fault e)" by simp
  then have "fst (retry_loop chat prompt model 3 0) = Text (failure_text 3)"
    using retry_loop_exhausted [of 3 chat model prompt 0] by simp
  then show ?thesis by (simp add: call_ollama_with_retries_def failure_text_3)
qed

lemma parent_CSV_PATH: "parent CSV_PATH = OUTPUT_DIR"
  unfolding CSV_PATH_def OUTPUT_DIR_def by code_simp

lemma write_results_rows:
  "write_results_to_csv dirs files CSV_PATH e t m d
     = Inr (files(CSV_PATH \<mapsto>
         (case files CSV_PATH of None \<Rightarrow> [header_row] | Some rows \<Rightarrow> rows)
         @ [data_row e t m d]))"
proof (cases "files CSV_PATH")
  case None
  moreover have "dir_exists dirs (parent CSV_PATH)"
    by (simp add: parent_CSV_PATH output_dir_exists)
  ultimately show ?thesis by (simp add: write_fresh)
next
  case (Some rows)
  then show ?thesis by (simp add: write_existing)
qed

text \<open>Halves and quarters are doubles.\<close>

lemma fmul_halves:
  "fmul 0 (1 / 2) = 0" "fmul (1 / 2) (1 / 2) = 1 / 4" "fmul 1 (1 / 2) = 1 / 2"
  by code_simp+

lemma double_of_0: "double_of 0 = 0"
  by (simp add: double_of_def)

lemma double_of_1: "double_of 1 = 1"
  by code_simp

text \<open>
  The two halvings of the combined score are exact and only the sum is rounded: the
  lexical adherence is 0 or at least \<open>1 / len(rules)\<close>, far above the subnormal doubles
  for any list that Python can hold (fewer than \<open>2 ^ 63\<close> terms); the structural
  adherence is 0, one half or 1.
\<close>

lemma adherence_zero_or_normal:
  assumes "length rules < 2 ^ 63"
  shows "adherence (check_lexical_adherence story rules) = 0
     \<or> 2 powi (- 1021) \<le> adherence (check_lexical_adherence story rules)"
proof (cases "rules = []")
  case True
  have "(2::rat) powi (- 1021) \<le> 2 powi 0" by (rule powi_two_mono) simp
  with True show ?thesis by (simp add: check_lexical_adherence_def)
next
  case False
  define k where "k = length (filter (\<lambda>word. str_in (lower word) (lower story)) rules)"
  define n where "n = length rules"
  from False have a: "adherence (check_lexical_adherence story rules) = of_nat k / of_nat n"
    by (simp add: check_lexical_adherence_def Let_def k_def n_def)
  from False have n: "0 < n" by (simp add: n_def)
  show ?thesis
  proof (cases "k = 0")
    case True
    with a show ?thesis by simp
  next
    case False
    have "(2::rat) powi (- 1021) \<le> 2 powi (- 63)" by (rule powi_two_mono) simp
    also have "\<dots> = 1 / 2 ^ 63" by (simp add: power_int_minus_divide)
    also have "\<dots> \<le> 1 / of_nat n"
    proof -
      from assms have "(of_nat n :: rat) < of_nat (2 ^ 63)" unfolding n_def by (simp only: of_nat_less_iff)
      then have "(of_nat n :: rat) \<le> 2 ^ 63" by simp
      with n show ?thesis by (simp add: frac_le)
    qed
    also have "\<dots> \<le> of_nat k / of_nat n"
    proof -
      from False have "(1::rat) \<le> of_nat k" by simp
      with n show ?thesis by (simp add: divide_right_mono)
    qed
    finally show ?thesis unfolding a ..
  qed
qed

lemma structural_adherence_values:
  "structural_adherence (verify_structural_rules story) \<in> {0, 1 / 2, 1}"
  by (simp add: verify_structural_rules_def Let_def)

lemma mean_in_doubles:
  assumes "a = 0 \<or> 2 powi (- 1021) \<le> a" and "s \<in> {0, 1 / 2, 1}"
  shows "fadd (fmul (double_of a) (1 / 2)) (fmul s (1 / 2)) = double_of ((double_of a + s) / 2)"
proof -
  from assms(2) consider "s = 0" | "s = 1 / 2" | "s = 1" by blast
  then have s: "fmul s (1 / 2) = s / 2"
  proof cases
    case 1
    then show ?thesis by (simp only: fmul_halves(1) div_0)
  next
    case 2
    have "(1 / 2 :: rat) / 2 = 1 / 4" by simp
    with 2 show ?thesis by (simp only: fmul_halves(2))
  next
    case 3
    then show ?thesis by (simp only: fmul_halves(3))
  qed
  from assms(1) have "fmul (double_of a) (1 / 2) = double_of a / 2"
  proof
    assume "a = 0"
    then show ?thesis by (simp add: fmul_def double_of_0)
  next
    assume "2 powi (- 1021) \<le> a"
    then have "double_of (double_of a / 2) = double_of a / 2" by (rule double_of_half)
    then show ?thesis by (simp add: fmul_def)
  qed
  then have "fadd (fmul (double_of a) (1 / 2)) (fmul s (1 / 2))
      = double_of (double_of a / 2 + s / 2)"
    by (simp only: s fadd_def)
  also have "double_of a / 2 + s / 2 = (double_of a + s) / 2"
    by (simp only: add_divide_distrib)
  finally show ?thesis .
qed

lemma double_of_two_thirds: "double_of (2 / 3) = 6004799503160661 / 9007199254740992"
  by code_simp

lemma double_of_five_sixths: "double_of (5 / 6) = 7505999378950827 / 9007199254740992"
  by code_simp

lemma mean_two_thirds_one:
  "fadd (fmul (double_of (2 / 3)) (1 / 2)) (fmul 1 (1 / 2))
     = 3752999689475413 / 4503599627370496"
  by code_simp

lemma csv_save_experiment_artifacts:
  "csv (save_experiment_artifacts w name trial prompt story first) = csv w"
  by (simp add: save_experiment_artifacts_def)

text \<open>
  The row that a trial appends, for the story that the client returned: the counts are
  those of the lexical check in both configurations; the adherence is that of the lexical
  check in the lexical configuration, and in the structural one half of its double plus
  half of the structural adherence.
\<close>

lemma run_trial_recorded:
  assumes "fst (call_ollama_with_retries chat (build_prompt rules constraint_type) model 3)
      = Text story"
  shows "\<exists>w'. run_trial chat w model constraint_type trial rules = Inr w'
     \<and> csv w' CSV_PATH
       = Some ((case csv w CSV_PATH of None \<Rightarrow> [header_row] | Some rows \<Rightarrow> rows)
          @ [[PStr (''taxonomy_'' @ constraint_type @ ''_R20''), PInt trial, PStr model, PInt 20,
              PInt (int (passed_count (check_lexical_adherence story rules))),
              PInt (int (failed_count (check_lexical_adherence story rules))),
              PFloat (if constraint_type = ''structural''
                      then fadd (fmul (double_of (adherence (check_lexical_adherence story rules)))
                                   (1 / 2))
                             (fmul (structural_adherence (verify_structural_rules story)) (1 / 2))
                      else adherence (check_lexical_adherence story rules)),
              PInt (int (length (build_prompt rules constraint_type))),
              PStr (strip (''Type: '' @ constraint_type @ ''. ''
                 @ (if constraint_type = ''structural''
                    then ''Paragraphs: ''
                         @ str_int (int (paragraph_count (verify_structural_rules story)))
                         @ ''/3, Long sentences: ''
                         @ str_int (int (long_sentences (verify_structural_rules story)))
                    else [])))]])"
  using assms
  by (simp add: run_trial_def Let_def write_results_rows csv_save_experiment_artifacts
      data_row_def dict_get_def lexical_dict_def taxonomy_R_def str_int_20)

text \<open>A trial never raises: the client returns a text, and a row is appended.\<close>

lemma run_trial_total: "\<exists>w'. run_trial chat w model constraint_type trial rules = Inr w'"
proof -
  obtain story
    where "fst (call_ollama_with_retries chat (build_prompt rules constraint_type) model 3)
      = Text story"
    using call_default_returns_text by blast
  from run_trial_recorded [OF this] show ?thesis by blast
qed

text \<open>
  Claim C6. In a trial of the structural configuration (the prompt carries the lexical
  and the structural rules), whatever story the client returns, the row appended to the
  result file has as adherence the mean of the lexical adherence and the structural
  adherence of that story, as the code computes it in doubles: half of the lexical
  adherence plus half of the structural adherence, each of the three operations rounded.
  This value stands in place of the lexical adherence, which a trial of the lexical
  configuration records; the passed and failed cells are the counts of the lexical check
  in both configurations. For a list of fewer than \<open>2 ^ 63\<close> terms the two halvings are
  exact, so the recorded value is the double nearest to the mean of the structural
  adherence and the double of the lexical adherence. It need not be the double nearest to
  the mean of the two exact scores: for a lexical adherence of two thirds (the double
  \<open>0.6666666666666666\<close>) and a structural adherence of 1 the code records
  \<open>0.8333333333333333\<close>, while five sixths rounds to \<open>0.8333333333333334\<close>.
\<close>

theorem combined_adherence_recorded:
  "(fst (call_ollama_with_retries chat (build_prompt rules ''structural'') model 3) = Text story
    \<longrightarrow> (\<exists>w'. run_trial chat w model ''structural'' trial rules = Inr w'
         \<and> csv w' CSV_PATH
           = Some ((case csv w CSV_PATH of None \<Rightarrow> [header_row] | Some rows \<Rightarrow> rows)
              @ [[PStr ''taxonomy_structural_R20'', PInt trial, PStr model, PInt 20,
                  PInt (int (passed_count (check_lexical_adherence story rules))),
                  PInt (int (failed_count (check_lexical_adherence story rules))),
                  PFloat (fadd (fmul (double_of (adherence (check_lexical_adherence story rules)))
                                  (1 / 2))
                            (fmul (structural_adherence (verify_structural_rules story))
                                  (1 / 2))),
                  PInt (int (length (build_prompt rules ''structural''))),
                  PStr (strip (''Type: structural. Paragraphs: ''
                     @ str_int (int (paragraph_count (verify_structural_rules story)))
                     @ ''/3, Long sentences: ''
                     @ str_int (int (long_sentences (verify_structural_rules story)))))]])))
   \<and> (fst (call_ollama_with_retries chat (build_prompt rules ''lexical'') model 3) = Text story
    \<longrightarrow> (\<exists>w'. run_trial chat w model ''lexical'' trial rules = Inr w'
         \<and> csv w' CSV_PATH
           = Some ((case csv w CSV_PATH of None \<Rightarrow> [header_row] | Some rows \<Rightarrow> rows)
              @ [[PStr ''taxonomy_lexical_R20'', PInt trial, PStr model, PInt 20,
                  PInt (int (passed_count (check_lexical_adherence story rules))),
                  PInt (int (failed_count (check_lexical_adherence story rules))),
                  PFloat (adherence (check_lexical_adherence story rules)),
                  PInt (int (length (build_prompt rules ''lexical''))),
                  PStr ''Type: lexical.'']])))
   \<and> (length rules < 2 ^ 63
    \<longrightarrow> fadd (fmul (double_of (adherence (check_lexical_adherence story rules))) (1 / 2))
             (fmul (structural_adherence (verify_structural_rules story)) (1 / 2))
        = double_of ((double_of (adherence (check_lexical_adherence story rules))
                      + structural_adherence (verify_structural_rules story)) / 2))
   \<and> double_of (2 / 3) = 6004799503160661 / 9007199254740992
   \<and> fadd (fmul (double_of (2 / 3)) (1 / 2)) (fmul 1 (1 / 2))
      = 3752999689475413 / 4503599627370496
   \<and> double_of (5 / 6) = 7505999378950827 / 9007199254740992"
proof (intro conjI impI)
  show "double_of (2 / 3) = 6004799503160661 / 9007199254740992"
    by (rule double_of_two_thirds)
  show "fadd (fmul (double_of (2 / 3)) (1 / 2)) (fmul 1 (1 / 2))
      = 3752999689475413 / 4503599627370496"
    by (rule mean_two_thirds_one)
  show "double_of (5 / 6) = 7505999378950827 / 9007199254740992"
    by (rule double_of_five_sixths)
next
  assume "length rules < 2 ^ 63"
  then have "adherence (check_lexical_adherence story rules) = 0
      \<or> 2 powi (- 1021) \<le> adherence (check_lexical_adherence story rules)"
    by (rule adherence_zero_or_normal)
  then show "fadd (fmul (double_of (adherence (check_lexical_adherence story rules))) (1 / 2))
             (fmul (structural_adherence (verify_structural_rules story)) (1 / 2))
        = double_of ((double_of (adherence (check_lexical_adherence story rules))
                      + structural_adherence (verify_structural_rules story)) / 2)"
    using structural_adherence_values by (rule mean_in_doubles)
next
  assume "fst (call_ollama_with_retries chat (build_prompt rules ''structural'') model 3) = Text story"
  from run_trial_recorded [OF this, of w trial]
  show "\<exists>w'. run_trial chat w model ''structural'' trial rules = Inr w'
         \<and> csv w' CSV_PATH
           = Some ((case csv w CSV_PATH of None \<Rightarrow> [header_row] | Some rows \<Rightarrow> rows)
              @ [[PStr ''taxonomy_structural_R20'', PInt trial, PStr model, PInt 20,
                  PInt (int (passed_count (check_lexical_adherence story rules))),
                  PInt (int (failed_count (check_lexical_adherence story rules))),
                  PFloat (fadd (fmul (double_of (adherence (check_lexical_adherence story rules)))
                                  (1 / 2))
                            (fmul (structural_adherence (verify_structural_rules story))
                                  (1 / 2))),
                  PInt (int (length (build_prompt rules ''structural''))),
                  PStr (strip (''Type: structural. Paragraphs: ''
                     @ str_int (int (paragraph_count (verify_structural_rules story)))
                     @ ''/3, Long sentences: ''
                     @ str_int (int (long_sentences (verify_structural_rules story)))))]])"
    by simp
next
  assume "fst (call_ollama_with_retries chat (build_prompt rules ''lexical'') model 3) = Text story"
  from run_trial_recorded [OF this, of w trial]
  show "\<exists>w'. run_trial chat w model ''lexical'' trial rules = Inr w'
         \<and> csv w' CSV_PATH
           = Some ((case csv w CSV_PATH of None \<Rightarrow> [header_row] | Some rows \<Rightarrow> rows)
              @ [[PStr ''taxonomy_lexical_R20'', PInt trial, PStr model, PInt 20,
                  PInt (int (passed_count (check_lexical_adherence story rules))),
                  PInt (int (failed_count (check_lexical_adherence story rules))),
                  PFloat (adherence (check_lexical_adherence story rules)),
                  PInt (int (length (build_prompt rules ''lexical''))),
                  PStr ''Type: lexical.'']])"
    by (simp add: strip_type_lexical)
qed

theorem combined_adherence_recorded_witness:
  "(\<exists>w'. run_trial
        (\<lambda>model prompt attempt.
           Content ''The river was wide.\<newline>\<newline>An Apple fell.\<newline>\<newline>The end.'')
        \<lparr> trace = [], csv = Map.empty, texts = Map.empty, directories = {} \<rparr>
        ''gemma2:2b'' ''structural'' 2 [''river'', ''apple'', ''moon''] = Inr w'
      \<and> csv w' CSV_PATH
        = Some [header_row,
                [PStr ''taxonomy_structural_R20'', PInt 2, PStr ''gemma2:2b'', PInt 20,
                 PInt 2, PInt 1, PFloat (3752999689475413 / 4503599627370496), PInt 292,
                 PStr ''Type: structural. Paragraphs: 3/3, Long sentences: 0'']])
   \<and> (\<exists>w'. run_trial
        (\<lambda>model prompt attempt.
           Content ''The river was wide.\<newline>\<newline>An Apple fell.\<newline>\<newline>The end.'')
        \<lparr> trace = [], csv = Map.empty, texts = Map.empty, directories = {} \<rparr>
        ''gemma2:2b'' ''lexical'' 2 [''river'', ''apple'', ''moon''] = Inr w'
      \<and> csv w' CSV_PATH
        = Some [header_row,
                [PStr ''taxonomy_lexical_R20'', PInt 2, PStr ''gemma2:2b'', PInt 20,
                 PInt 2, PInt 1, PFloat (2 / 3), PInt 216,
                 PStr ''Type: lexical.'']])
   \<and> fadd (fmul (double_of (2 / 3)) (1 / 2)) (fmul 1 (1 / 2))
     = double_of ((double_of (2 / 3) + 1) / 2)"
proof -
  let ?story = "''The river was wide.\<newline>\<newline>An Apple fell.\<newline>\<newline>The end.''"
  let ?chat = "\<lambda>(model :: string) (prompt :: string) (attempt :: nat). Content ?story"
  let ?rules = "[''river'', ''apple'', ''moon'']"
  let ?w = "\<lparr> trace = [], csv = Map.empty, texts = Map.empty, directories = {} \<rparr>"
  have returned: "fst (call_ollama_with_retries ?chat prompt ''gemma2:2b'' 3) = Text ?story"
    for prompt
    by (simp add: call_ollama_with_retries_def retry_loop_content)
  have lexical: "check_lexical_adherence ?story ?rules
      = \<lparr> passed_count = 2, failed_count = 1, passed_words = [''river'', ''apple''],
          failed_words = [''moon''], adherence = 2 / 3 \<rparr>"
    by code_simp
  have structural: "verify_structural_rules ?story
      = \<lparr> paragraph_count = 3, long_sentences = 0, structural_adherence = 1 \<rparr>"
    by code_simp
  have details: "strip ''Type: structural. Paragraphs: 3/3, Long sentences: 0''
      = ''Type: structural. Paragraphs: 3/3, Long sentences: 0''"
    by code_simp
  have mean: "fadd (fmul (double_of (2 / 3)) (1 / 2)) (fmul 1 (1 / 2))
      = 3752999689475413 / 4503599627370496"
    by (rule mean_two_thirds_one)
  have short: "length ?rules < 2 ^ 63"
    by simp
  have len_s: "length (build_prompt ?rules ''structural'') = 292"
    by (simp add: build_prompt_def)
  have len_l: "length (build_prompt ?rules ''lexical'') = 216"
    by (simp add: build_prompt_def)
  note inst = combined_adherence_recorded [of ?chat ?rules "''gemma2:2b''" ?story ?w 2]
  from inst returned
  have "\<exists>w'. run_trial ?chat ?w ''gemma2:2b'' ''structural'' 2 ?rules = Inr w'
         \<and> csv w' CSV_PATH
           = Some ((case csv ?w CSV_PATH of None \<Rightarrow> [header_row] | Some rows \<Rightarrow> rows)
              @ [[PStr ''taxonomy_structural_R20'', PInt 2, PStr ''gemma2:2b'', PInt 20,
                  PInt (int (passed_count (check_lexical_adherence ?story ?rules))),
                  PInt (int (failed_count (check_lexical_adherence ?story ?rules))),
                  PFloat (fadd (fmul (double_of (adherence (check_lexical_adherence ?story ?rules)))
                                  (1 / 2))
                            (fmul (structural_adherence (verify_structural_rules ?story))
                                  (1 / 2))),
                  PInt (int (length (build_prompt ?rules ''structural''))),
                  PStr (strip (''Type: structural. Paragraphs: ''
                     @ str_int (int (paragraph_count (verify_structural_rules ?story)))
                     @ ''/3, Long sentences: ''
                     @ str_int (int (long_sentences (verify_structural_rules ?story)))))]])"
    by blast
  then have s: "\<exists>w'. run_trial ?chat ?w ''gemma2:2b'' ''structural'' 2 ?rules = Inr w'
      \<and> csv w' CSV_PATH
        = Some [header_row,
                [PStr ''taxonomy_structural_R20'', PInt 2, PStr ''gemma2:2b'', PInt 20,
                 PInt 2, PInt 1, PFloat (3752999689475413 / 4503599627370496), PInt 292,
                 PStr ''Type: structural. Paragraphs: 3/3, Long sentences: 0'']]"
    unfolding lexical structural len_s by (simp add: details str_int_3 str_int_0 mean)
  from inst returned
  have "\<exists>w'. run_trial ?chat ?w ''gemma2:2b'' ''lexical'' 2 ?rules = Inr w'
         \<and> csv w' CSV_PATH
           = Some ((case csv ?w CSV_PATH of None \<Rightarrow> [header_row] | Some rows \<Rightarrow> rows)
              @ [[PStr ''taxonomy_lexical_R20'', PInt 2, PStr ''gemma2:2b'', PInt 20,
                  PInt (int (passed_count (check_lexical_adherence ?story ?rules))),
                  PInt (int (failed_count (check_lexical_adherence ?story ?rules))),
                  PFloat (adherence (check_lexical_adherence ?story ?rules)),
                  PInt (int (length (build_prompt ?rules ''lexical''))),
                  PStr ''Type: lexical.'']])"
    by blast
  then have l: "\<exists>w'. run_trial ?chat ?w ''gemma2:2b'' ''lexical'' 2 ?rules = Inr w'
      \<and> csv w' CSV_PATH
        = Some [header_row,
                [PStr ''taxonomy_lexical_R20'', PInt 2, PStr ''gemma2:2b'', PInt 20,
                 PInt 2, PInt 1, PFloat (2 / 3), PInt 216,
                 PStr ''Type: lexical.'']]"
    unfolding lexical len_l by simp
  from inst short
  have "fadd (fmul (double_of (adherence (check_lexical_adherence ?story ?rules))) (1 / 2))
             (fmul (structural_adherence (verify_structural_rules ?story)) (1 / 2))
        = double_of ((double_of (adherence (check_lexical_adherence ?story ?rules))
                      + structural_adherence (verify_structural_rules ?story)) / 2)"
    by blast
  then have m: "fadd (fmul (double_of (2 / 3)) (1 / 2)) (fmul 1 (1 / 2))
      = double_of ((double_of (2 / 3) + 1) / 2)"
    unfolding lexical structural
    by (simp only: lexical_result.select_convs structural_result.select_convs)
  from s l m show ?thesis by (intro conjI)
qed

lemma adherence_zero_iff:
  assumes "rules \<noteq> []"
  shows "adherence (check_lexical_adherence story rules) = 0
     \<longleftrightarrow> (\<forall>word \<in> set rules. \<not> sublist (lower word) (lower story))"
proof -
  from assms have "(of_nat (length rules) :: rat) \<noteq> 0" by simp
  then have "adherence (check_lexical_adherence story rules) = 0
      \<longleftrightarrow> filter (\<lambda>word. str_in (lower word) (lower story)) rules = []"
    using assms by (simp add: check_lexical_adherence_def Let_def)
  also have "\<dots> \<longleftrightarrow> (\<forall>word \<in> set rules. \<not> str_in (lower word) (lower story))"
    by (simp add: filter_empty_conv)
  finally show ?thesis by (simp add: str_in_iff_sublist)
qed

text \<open>
  Claim C2, as the code has it. When all three attempts of the generation call fail, the
  trial is still scored and recorded: it appends one row, scored on the failure text. In
  the lexical configuration the recorded adherence is the fraction of the terms whose
  lowercase form occurs in \<open>error: failed to generate response after 3 attempts\<close>; for a
  non-empty list of terms it is 0 exactly when no term occurs there. In the structural
  configuration the recorded adherence is half of that fraction plus one quarter (the sum
  that the code computes in doubles), the failure text being one paragraph without a long
  sentence.
\<close>

theorem exhausted_trial_recorded:
  assumes "rules \<noteq> []"
    and "\<forall>prompt attempt. attempt < 3 \<longrightarrow> (\<exists>e. chat model prompt attempt = Fault e)"
  shows "(\<exists>w'. run_trial chat w model ''lexical'' trial rules = Inr w'
       \<and> csv w' CSV_PATH
         = Some ((case csv w CSV_PATH of None \<Rightarrow> [header_row] | Some rows \<Rightarrow> rows)
            @ [[PStr ''taxonomy_lexical_R20'', PInt trial, PStr model, PInt 20,
                PInt (int (passed_count (check_lexical_adherence
                   ''ERROR: Failed to generate response after 3 attempts'' rules))),
                PInt (int (failed_count (check_lexical_adherence
                   ''ERROR: Failed to generate response after 3 attempts'' rules))),
                PFloat (adherence (check_lexical_adherence
                   ''ERROR: Failed to generate response after 3 attempts'' rules)),
                PInt (int (length (build_prompt rules ''lexical''))),
                PStr ''Type: lexical.'']]))
     \<and> (\<exists>w'. run_trial chat w model ''structural'' trial rules = Inr w'
       \<and> csv w' CSV_PATH
         = Some ((case csv w CSV_PATH of None \<Rightarrow> [header_row] | Some rows \<Rightarrow> rows)
            @ [[PStr ''taxonomy_structural_R20'', PInt trial, PStr model, PInt 20,
                PInt (int (passed_count (check_lexical_adherence
                   ''ERROR: Failed to generate response after 3 attempts'' rules))),
                PInt (int (failed_count (check_lexical_adherence
                   ''ERROR: Failed to generate response after 3 attempts'' rules))),
                PFloat (fadd (fmul (double_of (adherence (check_lexical_adherence
                   ''ERROR: Failed to generate response after 3 attempts'' rules))) (1 / 2))
                   (1 / 4)),
                PInt (int (length (build_prompt rules ''structural''))),
                PStr ''Type: structural. Paragraphs: 1/3, Long sentences: 0'']]))
     \<and> adherence (check_lexical_adherence
           ''ERROR: Failed to generate response after 3 attempts'' rules)
         = of_nat (length (filter (\<lambda>word. sublist (lower word)
                ''error: failed to generate response after 3 attempts'') rules))
           / of_nat (length rules)
     \<and> (adherence (check_lexical_adherence
           ''ERROR: Failed to generate response after 3 attempts'' rules) = 0
        \<longleftrightarrow> (\<forall>word \<in> set rules. \<not> sublist (lower word)
                ''error: failed to generate response after 3 attempts''))"
proof -
  let ?sentinel = "''ERROR: Failed to generate response after 3 attempts''"
  from assms(2) have returned:
    "fst (call_ollama_with_retries chat prompt model 3) = Text ?sentinel" for prompt
    by (intro call_default_exhausted) blast
  have details: "strip ''Type: structural. Paragraphs: 1/3, Long sentences: 0''
      = ''Type: structural. Paragraphs: 1/3, Long sentences: 0''"
    by code_simp
  have l: "\<exists>w'. run_trial chat w model ''lexical'' trial rules = Inr w'
       \<and> csv w' CSV_PATH
         = Some ((case csv w CSV_PATH of None \<Rightarrow> [header_row] | Some rows \<Rightarrow> rows)
            @ [[PStr ''taxonomy_lexical_R20'', PInt trial, PStr model, PInt 20,
                PInt (int (passed_count (check_lexical_adherence ?sentinel rules))),
                PInt (int (failed_count (check_lexical_adherence ?sentinel rules))),
                PFloat (adherence (check_lexical_adherence ?sentinel rules)),
                PInt (int (length (build_prompt rules ''lexical''))),
                PStr ''Type: lexical.'']])"
    using run_trial_recorded
      [where constraint_type = "''lexical''" and rules = rules and w = w and trial = trial,
       OF returned]
    by (simp add: strip_type_lexical)
  have s: "\<exists>w'. run_trial chat w model ''structural'' trial rules = Inr w'
       \<and> csv w' CSV_PATH
         = Some ((case csv w CSV_PATH of None \<Rightarrow> [header_row] | Some rows \<Rightarrow> rows)
            @ [[PStr ''taxonomy_structural_R20'', PInt trial, PStr model, PInt 20,
                PInt (int (passed_count (check_lexical_adherence ?sentinel rules))),
                PInt (int (failed_count (check_lexical_adherence ?sentinel rules))),
                PFloat (fadd (fmul (double_of (adherence (check_lexical_adherence ?sentinel rules)))
                   (1 / 2)) (1 / 4)),
                PInt (int (length (build_prompt rules ''structural''))),
                PStr ''Type: structural. Paragraphs: 1/3, Long sentences: 0'']])"
    using run_trial_recorded
      [where constraint_type = "''structural''" and rules = rules and w = w and trial = trial,
       OF returned]
    by (simp add: structural_failure_text_3 str_int_1 str_int_0 details fmul_halves)
  have a: "adherence (check_lexical_adherence ?sentinel rules)
         = of_nat (length (filter (\<lambda>word. sublist (lower word)
                ''error: failed to generate response after 3 attempts'') rules))
           / of_nat (length rules)"
    using assms(1)
    by (simp add: check_lexical_adherence_def Let_def lower_failure_text_3 str_in_iff_sublist)
  have z: "adherence (check_lexical_adherence ?sentinel rules) = 0
        \<longleftrightarrow> (\<forall>word \<in> set rules. \<not> sublist (lower word)
                ''error: failed to generate response after 3 attempts'')"
    using adherence_zero_iff [OF assms(1), of ?sentinel] by (simp add: lower_failure_text_3)
  from l s a z show ?thesis by blast
qed

theorem exhausted_trial_recorded_witness:
  "(\<exists>w'. run_trial (\<lambda>model prompt attempt. Fault ''connection refused'')
        \<lparr> trace = [], csv = Map.empty, texts = Map.empty, directories = {} \<rparr>
        ''mistral:7b'' ''lexical'' 3 [''river'', ''horizon''] = Inr w'
      \<and> csv w' CSV_PATH
        = Some [header_row,
                [PStr ''taxonomy_lexical_R20'', PInt 3, PStr ''mistral:7b'', PInt 20,
                 PInt 0, PInt 2, PFloat 0, PInt 192, PStr ''Type: lexical.'']])
   \<and> (\<exists>w'. run_trial (\<lambda>model prompt attempt. Fault ''connection refused'')
        \<lparr> trace = [], csv = Map.empty, texts = Map.empty, directories = {} \<rparr>
        ''mistral:7b'' ''structural'' 3 [''river'', ''horizon''] = Inr w'
      \<and> csv w' CSV_PATH
        = Some [header_row,
                [PStr ''taxonomy_structural_R20'', PInt 3, PStr ''mistral:7b'', PInt 20,
                 PInt 0, PInt 2, PFloat (1 / 4), PInt 268,
                 PStr ''Type: structural. Paragraphs: 1/3, Long sentences: 0'']])"
proof -
  let ?sentinel = "''ERROR: Failed to generate response after 3 attempts''"
  let ?chat = "\<lambda>(model :: string) (prompt :: string) (attempt :: nat). Fault ''connection refused''"
  let ?rules = "[''river'', ''horizon'']"
  let ?w = "\<lparr> trace = [], csv = Map.empty, texts = Map.empty, directories = {} \<rparr>"
  have quarter: "fadd 0 (1 / 4) = 1 / 4" by code_simp
  have rules: "?rules \<noteq> []" by simp
  have down: "\<forall>prompt attempt. attempt < 3 \<longrightarrow> (\<exists>e. ?chat ''mistral:7b'' prompt attempt = Fault e)"
    by simp
  have lexical: "check_lexical_adherence ?sentinel ?rules
      = \<lparr> passed_count = 0, failed_count = 2, passed_words = [],
          failed_words = [''river'', ''horizon''], adherence = 0 \<rparr>"
    by code_simp
  have len_l: "length (build_prompt ?rules ''lexical'') = 192"
    by (simp add: build_prompt_def)
  have len_s: "length (build_prompt ?rules ''structural'') = 268"
    by (simp add: build_prompt_def)
  note inst = exhausted_trial_recorded
    [where rules = ?rules and chat = ?chat and model = "''mistral:7b''" and w = ?w and trial = 3]
  from inst rules down
  have l: "\<exists>w'. run_trial ?chat ?w ''mistral:7b'' ''lexical'' 3 ?rules = Inr w'
       \<and> csv w' CSV_PATH
         = Some ((case csv ?w CSV_PATH of None \<Rightarrow> [header_row] | Some rows \<Rightarrow> rows)
            @ [[PStr ''taxonomy_lexical_R20'', PInt 3, PStr ''mistral:7b'', PInt 20,
                PInt (int (passed_count (check_lexical_adherence ?sentinel ?rules))),
                PInt (int (failed_count (check_lexical_adherence ?sentinel ?rules))),
                PFloat (adherence (check_lexical_adherence ?sentinel ?rules)),
                PInt (int (length (build_prompt ?rules ''lexical''))),
                PStr ''Type: lexical.'']])"
    by blast
  from inst rules down
  have s: "\<exists>w'. run_trial ?chat ?w ''mistral:7b'' ''structural'' 3 ?rules = Inr w'
       \<and> csv w' CSV_PATH
         = Some ((case csv ?w CSV_PATH of None \<Rightarrow> [header_row] | Some rows \<Rightarrow> rows)
            @ [[PStr ''taxonomy_structural_R20'', PInt 3, PStr ''mistral:7b'', PInt 20,
                PInt (int (passed_count (check_lexical_adherence ?sentinel ?rules))),
                PInt (int (failed_count (check_lexical_adherence ?sentinel ?rules))),
                PFloat (fadd (fmul (double_of (adherence (check_lexical_adherence ?sentinel ?rules)))
                   (1 / 2)) (1 / 4)),
                PInt (int (length (build_prompt ?rules ''structural''))),
                PStr ''Type: structural. Paragraphs: 1/3, Long sentences: 0'']])"
    by blast
  from l have l': "\<exists>w'. run_trial ?chat ?w ''mistral:7b'' ''lexical'' 3 ?rules = Inr w'
      \<and> csv w' CSV_PATH
        = Some [header_row,
                [PStr ''taxonomy_lexical_R20'', PInt 3, PStr ''mistral:7b'', PInt 20,
                 PInt 0, PInt 2, PFloat 0, PInt 192, PStr ''Type: lexical.'']]"
    unfolding lexical len_l by simp
  from s have s': "\<exists>w'. run_trial ?chat ?w ''mistral:7b'' ''structural'' 3 ?rules = Inr w'
      \<and> csv w' CSV_PATH
        = Some [header_row,
                [PStr ''taxonomy_structural_R20'', PInt 3, PStr ''mistral:7b'', PInt 20,
                 PInt 0, PInt 2, PFloat (1 / 4), PInt 268,
                 PStr ''Type: structural. Paragraphs: 1/3, Long sentences: 0'']]"
    unfolding lexical len_s by (simp add: double_of_0 fmul_halves quarter)
  from l' s' show ?thesis by (rule conjI)
qed

text \<open>
  No word of the fallback vocabulary occurs in the failure text, so a failed trial whose
  rules are drawn from it records an adherence of 0 in the lexical configuration.
\<close>

lemma default_words_miss_failure_text:
  "\<forall>word \<in> set default_words.
     \<not> sublist (lower word) ''error: failed to generate response after 3 attempts''"
  unfolding default_words_def str_in_iff_sublist [symmetric] by code_simp

text \<open>
  The claim as the specification states it fails, for instance, for the term \<open>a\<close>: it
  occurs in the failure text (in \<open>Failed\<close>), so a trial whose three attempts all fail
  records an adherence of 1 for the constraint set of this one term.
\<close>

theorem failure_text_matches_term:
  "adherence (check_lexical_adherence ''ERROR: Failed to generate response after 3 attempts''
      [''a'']) = 1
   \<and> (\<exists>w'. run_trial (\<lambda>model prompt attempt. Fault ''connection refused'')
        \<lparr> trace = [], csv = Map.empty, texts = Map.empty, directories = {} \<rparr>
        ''phi3:3.8b'' ''lexical'' 1 [''a''] = Inr w'
      \<and> csv w' CSV_PATH
        = Some [header_row,
                [PStr ''taxonomy_lexical_R20'', PInt 1, PStr ''phi3:3.8b'', PInt 20,
                 PInt 1, PInt 0, PFloat 1, PInt 159, PStr ''Type: lexical.'']])"
proof -
  let ?sentinel = "''ERROR: Failed to generate response after 3 attempts''"
  let ?chat = "\<lambda>(model :: string) (prompt :: string) (attempt :: nat). Fault ''connection refused''"
  let ?w = "\<lparr> trace = [], csv = Map.empty, texts = Map.empty, directories = {} \<rparr>"
  have lexical: "check_lexical_adherence ?sentinel [''a'']
      = \<lparr> passed_count = 1, failed_count = 0, passed_words = [''a''],
          failed_words = [], adherence = 1 \<rparr>"
    by code_simp
  have returned: "fst (call_ollama_with_retries ?chat (build_prompt [''a''] ''lexical'')
      ''phi3:3.8b'' 3) = Text ?sentinel"
    by (intro call_default_exhausted) simp
  have len: "length (build_prompt [''a''] ''lexical'') = 159"
    by (simp add: build_prompt_def)
  have "\<exists>w'. run_trial ?chat ?w ''phi3:3.8b'' ''lexical'' 1 [''a''] = Inr w'
      \<and> csv w' CSV_PATH
        = Some [header_row,
                [PStr ''taxonomy_lexical_R20'', PInt 1, PStr ''phi3:3.8b'', PInt 20,
                 PInt 1, PInt 0, PFloat 1, PInt 159, PStr ''Type: lexical.'']]"
    using run_trial_recorded [OF returned, of ?w 1]
    unfolding lexical len by (simp add: strip_type_lexical)
  with lexical show ?thesis by simp
qed

end
